theory Spec2Isabelle
  imports Main "HOL-Library.Char_ord" "HOL-Library.List_Lexorder" "HOL-Library.Product_Lexorder"
begin

section \<open>Go library functions used by the service\<close>

text \<open>
  Go strings are byte sequences; \<^typ>\<open>string\<close> is a list of 8-bit characters.
  The functions below follow package \<open>strings\<close>, restricted to the way the service
  calls them (single-byte separators, ASCII case folding, ASCII white space).
\<close>

definition HasPrefix :: "string \<Rightarrow> string \<Rightarrow> bool" where
  "HasPrefix s p = (take (length p) s = p)"

definition TrimPrefix :: "string \<Rightarrow> string \<Rightarrow> string" where
  "TrimPrefix s p = (if HasPrefix s p then drop (length p) s else s)"

text \<open>\<open>strings.IndexByte\<close>: the index of the first occurrence, \<open>None\<close> for -1.\<close>

fun IndexByte :: "string \<Rightarrow> char \<Rightarrow> nat option" where
  "IndexByte [] c = None"
| "IndexByte (x # xs) c =
     (if x = c then Some 0 else (case IndexByte xs c of None \<Rightarrow> None | Some i \<Rightarrow> Some (Suc i)))"

text \<open>\<open>strings.Split(s, sep)\<close> for a one-byte separator: never the empty list.\<close>

fun Split :: "string \<Rightarrow> char \<Rightarrow> string list" where
  "Split [] c = [[]]"
| "Split (x # xs) c =
     (if x = c then [] # Split xs c
      else (case Split xs c of [] \<Rightarrow> [[x]] | w # ws \<Rightarrow> (x # w) # ws))"

text \<open>\<open>strings.SplitN(s, sep, 2)\<close> for a one-byte separator: one or two parts.\<close>

definition SplitN2 :: "string \<Rightarrow> char \<Rightarrow> string list" where
  "SplitN2 s c = (case IndexByte s c of None \<Rightarrow> [s] | Some i \<Rightarrow> [take i s, drop (Suc i) s])"

definition Trim :: "string \<Rightarrow> char list \<Rightarrow> string" where
  "Trim s cutset = rev (dropWhile (\<lambda>c. c \<in> set cutset) (rev (dropWhile (\<lambda>c. c \<in> set cutset) s)))"

definition ascii_space :: "char list" where
  "ascii_space = [CHR 0x09, CHR 0x0A, CHR 0x0B, CHR 0x0C, CHR 0x0D, CHR '' '']"

definition TrimSpace :: "string \<Rightarrow> string" where
  "TrimSpace s = Trim s ascii_space"

definition lower_char :: "char \<Rightarrow> char" where
  "lower_char c = (if CHR ''A'' \<le> c \<and> c \<le> CHR ''Z'' then char_of (of_char c + (32::nat)) else c)"

definition ToLower :: "string \<Rightarrow> string" where
  "ToLower s = map lower_char s"

definition EqualFold :: "string \<Rightarrow> string \<Rightarrow> bool" where
  "EqualFold s t = (ToLower s = ToLower t)"

text \<open>\<open>strings.Join\<close>.\<close>

fun Join :: "string list \<Rightarrow> string \<Rightarrow> string" where
  "Join [] sep = []"
| "Join [x] sep = x"
| "Join (x # y # ys) sep = x @ sep @ Join (y # ys) sep"

subsection \<open>Decimal integers: \<open>strconv.ParseInt(s, 10, 64)\<close> and \<open>%d\<close>\<close>

definition is_digit :: "char \<Rightarrow> bool" where
  "is_digit c = (CHR ''0'' \<le> c \<and> c \<le> CHR ''9'')"

definition digit_val :: "char \<Rightarrow> nat" where
  "digit_val c = of_char c - 48"

definition digits_val :: "string \<Rightarrow> nat" where
  "digits_val s = foldl (\<lambda>acc c. acc * 10 + digit_val c) 0 s"

definition MaxInt64 :: int where
  "MaxInt64 = 2 ^ 63 - 1"

definition MinInt64 :: int where
  "MinInt64 = - (2 ^ 63)"

text \<open>
  \<open>ParseInt\<close> returns a value and an error; the range handler drops the error, so the
  model returns only the value: 0 on a syntax error (empty string, a sign alone, a
  non-digit), the nearest bound on overflow.
\<close>

definition ParseUintDigits :: "string \<Rightarrow> nat option" where
  "ParseUintDigits s = (if s = [] \<or> \<not> list_all is_digit s then None else Some (digits_val s))"

definition ParseInt :: "string \<Rightarrow> int" where
  "ParseInt s =
     (case s of
        [] \<Rightarrow> 0
      | c # rest \<Rightarrow>
          (let neg = (c = CHR ''-'');
               body = (if c = CHR ''+'' \<or> c = CHR ''-'' then rest else s)
           in case ParseUintDigits body of
                None \<Rightarrow> 0
              | Some un \<Rightarrow>
                  if \<not> neg \<and> int un \<ge> 2 ^ 63 then MaxInt64
                  else if neg \<and> int un > 2 ^ 63 then MinInt64
                  else if neg then - int un else int un))"

text \<open>Two's-complement wrap-around of \<open>int64\<close> arithmetic.\<close>

definition wrap64 :: "int \<Rightarrow> int" where
  "wrap64 x = (x + 2 ^ 63) mod 2 ^ 64 - 2 ^ 63"

fun dec_nat :: "nat \<Rightarrow> string" where
  "dec_nat n = (if n < 10 then [char_of (48 + n)] else dec_nat (n div 10) @ [char_of (48 + n mod 10)])"

declare dec_nat.simps [simp del]

definition fmt_d :: "int \<Rightarrow> string" where
  "fmt_d i = (if i < 0 then CHR ''-'' # dec_nat (nat (- i)) else dec_nat (nat i))"

text \<open>\<open>hex.EncodeToString\<close>: two lower-case digits per byte.\<close>

definition hex_digit :: "nat \<Rightarrow> char" where
  "hex_digit n = (if n < 10 then char_of (48 + n) else char_of (87 + n))"

definition hex_EncodeToString :: "string \<Rightarrow> string" where
  "hex_EncodeToString bs =
     concat (map (\<lambda>b. [hex_digit ((of_char b :: nat) div 16), hex_digit ((of_char b :: nat) mod 16)]) bs)"

subsection \<open>The \<open>LIKE\<close> operator of SQLite\<close>

text \<open>
  The metadata store is opened with \<open>OpenSQLite\<close>. Its \<open>LIKE\<close> matches \<open>%\<close> with any
  sequence, \<open>_\<close> with any one character, and compares ASCII letters without case.
\<close>

fun sql_like :: "string \<Rightarrow> string \<Rightarrow> bool" where
  "sql_like [] s = (s = [])"
| "sql_like (p # ps) [] = (p = CHR ''%'' \<and> sql_like ps [])"
| "sql_like (p # ps) (c # cs) =
     (if p = CHR ''%'' then sql_like ps (c # cs) \<or> sql_like (p # ps) cs
      else (p = CHR ''_'' \<or> lower_char p = lower_char c) \<and> sql_like ps cs)"


section \<open>The metadata store\<close>

subsection \<open>Rows (the gorm models)\<close>

text \<open>
  Times are seconds on the UTC time line. Every \<open>autoCreateTime\<close> column is filled with
  the time \<open>now\<close> that the operation is given.
\<close>

type_synonym time = int

record Bucket =
  bk_id :: nat
  bk_name :: string
  bk_owner_id :: nat
  bk_created_at :: time

record Blob =
  bl_id :: string
  bl_storage_node :: string
  bl_path :: string
  bl_size :: int
  bl_checksum :: string
  bl_state :: string
  bl_created_at :: time

record Object =
  ob_id :: nat
  ob_bucket_id :: nat
  ob_key :: string
  ob_blob_id :: string
  ob_size :: int
  ob_etag :: string
  ob_content_type :: string
  ob_head_version_id :: string
  ob_created_at :: time

record ObjectVersion =
  ov_version_id :: string
  ov_bucket_id :: nat
  ov_key :: string
  ov_blob_id :: "string option"
  ov_size :: "int option"
  ov_etag :: "string option"
  ov_content_type :: "string option"
  ov_is_delete :: bool
  ov_created_at :: time

record User =
  us_id :: nat
  us_access_key_id :: string
  us_secret_access_key :: string
  us_status :: string

record IdempotencyKey =
  ik_bucket_id :: nat
  ik_key :: string
  ik_idem_key :: string
  ik_version_id :: string
  ik_etag :: string
  ik_created_at :: time

record LifecycleRule =
  lr_bucket_id :: nat
  lr_prefix :: string
  lr_enabled :: bool
  lr_ExpireCurrentAfterDays :: "int option"
  lr_ExpireNoncurrentAfterDays :: "int option"
  lr_NoncurrentNewerVersionsToKeep :: "int option"
  lr_PurgeDeleteMarkersAfterDays :: "int option"

text \<open>
  A table is the list of its rows in insertion order. The unique indexes (the primary
  keys, \<open>buckets.name\<close>, \<open>objects(bucket_id, key)\<close>, \<open>blobs.checksum\<close>) are enforced by
  the inserting operations, so a lookup by such a key has at most one row to find.
  The two counters are the \<open>AUTOINCREMENT\<close> sequences of \<open>buckets\<close> and \<open>objects\<close>.
  Foreign keys are not enforced (the DSN's \<open>_foreign_keys\<close> is not a parameter of the
  pure-Go driver that \<open>OpenSQLite\<close> uses).
\<close>

record DB =
  buckets :: "Bucket list"
  blobs :: "Blob list"
  objects :: "Object list"
  object_versions :: "ObjectVersion list"
  users :: "User list"
  idempotency_keys :: "IdempotencyKey list"
  lifecycle_rules :: "LifecycleRule list"
  seq_buckets :: nat
  seq_objects :: nat

datatype err =
    ErrNotFound
  | ErrBucketNotEmpty
  | ErrUniqueConstraint
  | ErrMissingWhereClause

subsection \<open>Buckets\<close>

text \<open>\<open>EnsureBucket\<close>: find by name or create; claim an unowned bucket for the caller.\<close>

definition EnsureBucket :: "time \<Rightarrow> string \<Rightarrow> nat \<Rightarrow> DB \<Rightarrow> nat \<times> DB" where
  "EnsureBucket now name ownerID d =
     (let (b, d1) =
            (case find (\<lambda>b. bk_name b = name) (buckets d) of
               Some b \<Rightarrow> (b, d)
             | None \<Rightarrow>
                 (let b = \<lparr>bk_id = Suc (seq_buckets d), bk_name = name, bk_owner_id = 0,
                            bk_created_at = now\<rparr>
                  in (b, d\<lparr>buckets := buckets d @ [b], seq_buckets := Suc (seq_buckets d)\<rparr>)))
      in if bk_owner_id b = 0 \<and> ownerID \<noteq> 0
         then (bk_id b,
               d1\<lparr>buckets := map (\<lambda>x. if bk_id x = bk_id b then x\<lparr>bk_owner_id := ownerID\<rparr> else x)
                                  (buckets d1)\<rparr>)
         else (bk_id b, d1))"

definition BucketIDByName :: "string \<Rightarrow> nat \<Rightarrow> DB \<Rightarrow> err + nat" where
  "BucketIDByName name ownerID d =
     (case find (\<lambda>b. bk_name b = name \<and> bk_owner_id b = ownerID) (buckets d) of
        None \<Rightarrow> Inl ErrNotFound
      | Some b \<Rightarrow> Inr (bk_id b))"

definition DeleteBucketIfEmpty :: "nat \<Rightarrow> DB \<Rightarrow> err + DB" where
  "DeleteBucketIfEmpty bucketID d =
     (if length (filter (\<lambda>x. ob_bucket_id x = bucketID) (objects d)) > 0 then Inl ErrBucketNotEmpty
      else if length (filter (\<lambda>v. ov_bucket_id v = bucketID) (object_versions d)) > 0
      then Inl ErrBucketNotEmpty
      else Inr (d\<lparr>buckets := filter (\<lambda>b. bk_id b \<noteq> bucketID) (buckets d)\<rparr>))"

subsection \<open>Object heads\<close>

text \<open>
  \<open>LockObjectForUpdate\<close>: a no-op \<open>UPDATE\<close> on the row of \<open>(bucket, key)\<close>; when no row was
  affected, the row is created (empty head) and the \<open>UPDATE\<close> repeated.
\<close>

definition LockObjectForUpdate :: "time \<Rightarrow> nat \<Rightarrow> string \<Rightarrow> DB \<Rightarrow> err + DB" where
  "LockObjectForUpdate now bucketID key d =
     (if length (filter (\<lambda>x. ob_bucket_id x = bucketID \<and> ob_key x = key) (objects d)) > 0
      then Inr d
      else Inr (d\<lparr>objects := objects d @
                   [\<lparr>ob_id = Suc (seq_objects d), ob_bucket_id = bucketID, ob_key = key,
                     ob_blob_id = [], ob_size = 0, ob_etag = [], ob_content_type = [],
                     ob_head_version_id = [], ob_created_at = now\<rparr>],
                 seq_objects := Suc (seq_objects d)\<rparr>))"

text \<open>\<open>UpsertObjectTx\<close>: insert, or on the \<open>(bucket_id, key)\<close> conflict update five columns.\<close>

definition UpsertObjectTx ::
  "time \<Rightarrow> nat \<Rightarrow> string \<Rightarrow> string \<Rightarrow> int \<Rightarrow> string \<Rightarrow> string \<Rightarrow> string \<Rightarrow> DB \<Rightarrow> err + DB" where
  "UpsertObjectTx now bucketID key blobID sz etag contentType headVersionID d =
     (if list_ex (\<lambda>x. ob_bucket_id x = bucketID \<and> ob_key x = key) (objects d)
      then Inr (d\<lparr>objects :=
                   map (\<lambda>x. if ob_bucket_id x = bucketID \<and> ob_key x = key
                             then x\<lparr>ob_blob_id := blobID, ob_size := sz, ob_etag := etag,
                                    ob_content_type := contentType,
                                    ob_head_version_id := headVersionID\<rparr>
                             else x) (objects d)\<rparr>)
      else Inr (d\<lparr>objects := objects d @
                   [\<lparr>ob_id = Suc (seq_objects d), ob_bucket_id = bucketID, ob_key = key,
                     ob_blob_id = blobID, ob_size = sz, ob_etag = etag,
                     ob_content_type = contentType, ob_head_version_id = headVersionID,
                     ob_created_at = now\<rparr>],
                 seq_objects := Suc (seq_objects d)\<rparr>))"

definition SetHeadVersionTx :: "nat \<Rightarrow> string \<Rightarrow> string \<Rightarrow> DB \<Rightarrow> err + DB" where
  "SetHeadVersionTx bucketID key versionID d =
     Inr (d\<lparr>objects := map (\<lambda>x. if ob_bucket_id x = bucketID \<and> ob_key x = key
                                 then x\<lparr>ob_head_version_id := versionID\<rparr> else x) (objects d)\<rparr>)"

subsection \<open>Versions\<close>

definition InsertObjectVersionTx ::
  "time \<Rightarrow> nat \<Rightarrow> string \<Rightarrow> string \<Rightarrow> string \<Rightarrow> int \<Rightarrow> string \<Rightarrow> string \<Rightarrow> DB \<Rightarrow> err + DB" where
  "InsertObjectVersionTx now bucketID key versionID blobID sz etag contentType d =
     (if list_ex (\<lambda>v. ov_version_id v = versionID) (object_versions d) then Inl ErrUniqueConstraint
      else Inr (d\<lparr>object_versions := object_versions d @
                   [\<lparr>ov_version_id = versionID, ov_bucket_id = bucketID, ov_key = key,
                     ov_blob_id = Some blobID, ov_size = Some sz, ov_etag = Some etag,
                     ov_content_type = Some contentType, ov_is_delete = False,
                     ov_created_at = now\<rparr>]\<rparr>))"

definition CreateDeleteMarkerTx :: "time \<Rightarrow> nat \<Rightarrow> string \<Rightarrow> string \<Rightarrow> DB \<Rightarrow> err + DB" where
  "CreateDeleteMarkerTx now bucketID key versionID d =
     (if list_ex (\<lambda>v. ov_version_id v = versionID) (object_versions d) then Inl ErrUniqueConstraint
      else Inr (d\<lparr>object_versions := object_versions d @
                   [\<lparr>ov_version_id = versionID, ov_bucket_id = bucketID, ov_key = key,
                     ov_blob_id = None, ov_size = None, ov_etag = None,
                     ov_content_type = None, ov_is_delete = True, ov_created_at = now\<rparr>]\<rparr>))"

definition GetVersionTx :: "string \<Rightarrow> DB \<Rightarrow> err + ObjectVersion" where
  "GetVersionTx versionID d =
     (case find (\<lambda>v. ov_version_id v = versionID) (object_versions d) of
        None \<Rightarrow> Inl ErrNotFound
      | Some v \<Rightarrow> Inr v)"

definition GetHeadVersionTx :: "nat \<Rightarrow> string \<Rightarrow> DB \<Rightarrow> err + ObjectVersion" where
  "GetHeadVersionTx bucketID key d =
     (case find (\<lambda>x. ob_bucket_id x = bucketID \<and> ob_key x = key) (objects d) of
        None \<Rightarrow> Inl ErrNotFound
      | Some obj \<Rightarrow>
          (case find (\<lambda>v. ov_version_id v = ob_head_version_id obj) (object_versions d) of
             None \<Rightarrow> Inl ErrNotFound
           | Some v \<Rightarrow> Inr v))"

text \<open>
  \<open>GetPrevVersionTx\<close>: \<open>ORDER BY created_at DESC\<close>, to which gorm's \<open>First\<close> adds the
  primary key ascending, \<open>LIMIT 1\<close>.
\<close>

definition newer_version :: "ObjectVersion \<Rightarrow> ObjectVersion \<Rightarrow> bool" where
  "newer_version v w =
     (ov_created_at w < ov_created_at v \<or>
      (ov_created_at v = ov_created_at w \<and> ov_version_id v < ov_version_id w))"

fun first_by_created_desc :: "ObjectVersion list \<Rightarrow> ObjectVersion option" where
  "first_by_created_desc [] = None"
| "first_by_created_desc (v # vs) =
     (case first_by_created_desc vs of
        None \<Rightarrow> Some v
      | Some w \<Rightarrow> if newer_version w v then Some w else Some v)"

definition GetPrevVersionTx :: "nat \<Rightarrow> string \<Rightarrow> string \<Rightarrow> DB \<Rightarrow> err + ObjectVersion" where
  "GetPrevVersionTx bucketID key currentVersionID d =
     (case first_by_created_desc
             (filter (\<lambda>v. ov_bucket_id v = bucketID \<and> ov_key v = key \<and>
                           ov_version_id v \<noteq> currentVersionID) (object_versions d)) of
        None \<Rightarrow> Inl ErrNotFound
      | Some v \<Rightarrow> Inr v)"

text \<open>
  \<open>DeleteVersionTx\<close>: gorm deletes by the primary key of the value it is given, and
  refuses a delete without conditions (a zero primary key).
\<close>

definition DeleteVersionTx :: "string \<Rightarrow> DB \<Rightarrow> err + DB" where
  "DeleteVersionTx versionID d =
     (if versionID = [] then Inl ErrMissingWhereClause
      else Inr (d\<lparr>object_versions := filter (\<lambda>v. ov_version_id v \<noteq> versionID) (object_versions d)\<rparr>))"

subsection \<open>Blobs\<close>

definition FindBlobByChecksumTx :: "string \<Rightarrow> DB \<Rightarrow> err + Blob" where
  "FindBlobByChecksumTx checksum d =
     (case find (\<lambda>b. bl_checksum b = checksum \<and> bl_state b = ''ready'') (blobs d) of
        None \<Rightarrow> Inl ErrNotFound
      | Some b \<Rightarrow> Inr b)"

definition ReserveBlobPendingTx :: "time \<Rightarrow> string \<Rightarrow> string \<Rightarrow> int \<Rightarrow> string \<Rightarrow> DB \<Rightarrow> err + DB" where
  "ReserveBlobPendingTx now ident checksum sz storageNode d =
     (if list_ex (\<lambda>b. bl_id b = ident \<or> bl_checksum b = checksum) (blobs d)
      then Inl ErrUniqueConstraint
      else Inr (d\<lparr>blobs := blobs d @
                   [\<lparr>bl_id = ident, bl_storage_node = storageNode, bl_path = [], bl_size = sz,
                     bl_checksum = checksum, bl_state = ''pending'', bl_created_at = now\<rparr>]\<rparr>))"

definition MarkBlobReadyTx :: "string \<Rightarrow> DB \<Rightarrow> err + DB" where
  "MarkBlobReadyTx ident d =
     Inr (d\<lparr>blobs := map (\<lambda>b. if bl_id b = ident then b\<lparr>bl_state := ''ready''\<rparr> else b) (blobs d)\<rparr>)"

definition DeleteBlobRecordTx :: "string \<Rightarrow> DB \<Rightarrow> err + DB" where
  "DeleteBlobRecordTx ident d =
     (if ident = [] then Inl ErrMissingWhereClause
      else Inr (d\<lparr>blobs := filter (\<lambda>b. bl_id b \<noteq> ident) (blobs d)\<rparr>))"

definition BlobRefCountFromVersionsTx :: "string \<Rightarrow> DB \<Rightarrow> nat" where
  "BlobRefCountFromVersionsTx blobID d =
     length (filter (\<lambda>v. ov_blob_id v = Some blobID) (object_versions d))"

definition GetBlob :: "string \<Rightarrow> DB \<Rightarrow> err + Blob" where
  "GetBlob ident d =
     (case find (\<lambda>b. bl_id b = ident) (blobs d) of None \<Rightarrow> Inl ErrNotFound | Some b \<Rightarrow> Inr b)"

subsection \<open>Idempotency keys\<close>

definition SaveIdempotencyTx ::
  "time \<Rightarrow> nat \<Rightarrow> string \<Rightarrow> string \<Rightarrow> string \<Rightarrow> string \<Rightarrow> DB \<Rightarrow> err + DB" where
  "SaveIdempotencyTx now bucketID key idemKey versionID etag d =
     (if list_ex (\<lambda>i. ik_bucket_id i = bucketID \<and> ik_key i = key \<and> ik_idem_key i = idemKey)
           (idempotency_keys d)
      then Inr d
      else Inr (d\<lparr>idempotency_keys := idempotency_keys d @
                   [\<lparr>ik_bucket_id = bucketID, ik_key = key, ik_idem_key = idemKey,
                     ik_version_id = versionID, ik_etag = etag, ik_created_at = now\<rparr>]\<rparr>))"

definition GetIdempotencyTx :: "nat \<Rightarrow> string \<Rightarrow> string \<Rightarrow> DB \<Rightarrow> err + (string \<times> string)" where
  "GetIdempotencyTx bucketID key idemKey d =
     (case find (\<lambda>i. ik_bucket_id i = bucketID \<and> ik_key i = key \<and> ik_idem_key i = idemKey)
             (idempotency_keys d) of
        None \<Rightarrow> Inl ErrNotFound
      | Some i \<Rightarrow> Inr (ik_version_id i, ik_etag i))"

subsection \<open>Users\<close>

definition FindUserByAccessKey :: "string \<Rightarrow> DB \<Rightarrow> err + User" where
  "FindUserByAccessKey ident d =
     (case find (\<lambda>u. us_access_key_id u = ident \<and> us_status u = ''active'') (users d) of
        None \<Rightarrow> Inl ErrNotFound
      | Some u \<Rightarrow> Inr u)"


section \<open>The blob store (the file-system driver)\<close>

text \<open>
  The committed files, by blob id. \<open>storage_Put\<close> is \<open>BeginWrite\<close>, the copy of the body
  and \<open>Commit\<close> (the rename replaces a file of the same id); \<open>storage_Delete\<close> ignores a
  missing file; \<open>storage_ReadAt\<close> seeks when \<open>off > 0\<close> and limits the reader when
  \<open>n \<ge> 0\<close>. Input and output errors other than a missing file are not modelled.
\<close>

type_synonym Storage = "(string \<times> string) list"

definition storage_Put :: "string \<Rightarrow> string \<Rightarrow> Storage \<Rightarrow> Storage" where
  "storage_Put ident bytes fs = (ident, bytes) # filter (\<lambda>p. fst p \<noteq> ident) fs"

definition storage_Delete :: "string \<Rightarrow> Storage \<Rightarrow> Storage" where
  "storage_Delete ident fs = filter (\<lambda>p. fst p \<noteq> ident) fs"

definition storage_ReadAt :: "string \<Rightarrow> int \<Rightarrow> int \<Rightarrow> Storage \<Rightarrow> string option" where
  "storage_ReadAt ident off n fs =
     (case map_of fs ident of
        None \<Rightarrow> None
      | Some bytes \<Rightarrow>
          Some (if 0 \<le> n then take (nat n) (drop (nat off) bytes) else drop (nat off) bytes))"

section \<open>The HTTP handlers\<close>

record Server =
  sv_db :: DB
  sv_files :: Storage

text \<open>
  A request as the handlers read it: the URL path, the first value of each query
  parameter, the headers, \<open>r.ContentLength\<close> (-1 when unknown), the body, and the owner
  id that the authentication middleware put in the context (0 when none).
\<close>

record Request =
  rq_method :: string
  rq_path :: string
  rq_query :: "(string \<times> string) list"
  rq_header :: "(string \<times> string) list"
  rq_host :: string
  rq_content_length :: int
  rq_body :: string
  rq_owner :: nat

datatype body = NoBody | Bytes string | S3Error string string string

record Response =
  rs_status :: nat
  rs_header :: "(string \<times> string) list"
  rs_body :: body

datatype 'a outcome = Returned 'a | Panicked

text \<open>
  What a handler draws from outside the state: the clock, the two random identifiers
  (\<open>GenBlobID\<close>, \<open>GenVersionID\<close>) and SHA-256 in hexadecimal.
\<close>

record Env =
  en_now :: time
  en_blob_id :: string
  en_version_id :: string
  en_sha256_hex :: "string \<Rightarrow> string"

definition header_Get :: "(string \<times> string) list \<Rightarrow> string \<Rightarrow> string" where
  "header_Get h name =
     (case find (\<lambda>p. ToLower (fst p) = ToLower name) h of None \<Rightarrow> [] | Some p \<Rightarrow> snd p)"

definition header_Set :: "string \<Rightarrow> string \<Rightarrow> (string \<times> string) list \<Rightarrow> (string \<times> string) list" where
  "header_Set name v h = filter (\<lambda>p. ToLower (fst p) \<noteq> ToLower name) h @ [(name, v)]"

definition query_Get :: "(string \<times> string) list \<Rightarrow> string \<Rightarrow> string" where
  "query_Get q name = (case map_of q name of None \<Rightarrow> [] | Some v \<Rightarrow> v)"

definition writeS3Error ::
  "(string \<times> string) list \<Rightarrow> nat \<Rightarrow> string \<Rightarrow> string \<Rightarrow> string \<Rightarrow> Response" where
  "writeS3Error h status code msg resource =
     \<lparr>rs_status = status, rs_header = header_Set ''Content-Type'' ''application/xml'' h,
      rs_body = S3Error code msg resource\<rparr>"

definition parseBucketKey :: "string \<Rightarrow> string + (string \<times> string)" where
  "parseBucketKey path =
     (case SplitN2 (Trim path ''/'') CHR ''/'' of
        [b, k] \<Rightarrow> if b = [] \<or> k = [] then Inl ''invalid path, expected /:bucket/:key'' else Inr (b, k)
      | _ \<Rightarrow> Inl ''invalid path, expected /:bucket/:key'')"

definition stripQuotes :: "string \<Rightarrow> string" where
  "stripQuotes s0 =
     (let s = TrimSpace s0
      in if length s \<ge> 2 \<and> hd s = CHR 0x22 \<and> last s = CHR 0x22 then butlast (tl s) else s)"

subsection \<open>PUT object\<close>

record putResult =
  pr_versionID :: string
  pr_etag :: string
  pr_blobID :: string
  pr_size :: int
  pr_status :: nat

text \<open>
  The transaction of \<open>handlePut\<close>, in its three parts. The closure also assigns the
  handler's variables \<open>staged\<close> and \<open>usedNew\<close> and deletes files; those effects outlive
  a rollback, so each part returns them beside the transaction's result.
\<close>

record putTxOut =
  po_tx :: "err + DB"
  po_res :: putResult
  po_staged :: bool
  po_usedNew :: bool
  po_files :: Storage

definition put_no_result :: putResult where
  "put_no_result = \<lparr>pr_versionID = [], pr_etag = [], pr_blobID = [], pr_size = 0, pr_status = 0\<rparr>"

text \<open>Version, head and idempotency record, once the blob is chosen.\<close>

definition putTx_meta ::
  "Env \<Rightarrow> nat \<Rightarrow> string \<Rightarrow> string \<Rightarrow> string \<Rightarrow> string \<Rightarrow> string \<Rightarrow> int \<Rightarrow> DB \<Rightarrow> (err + DB) \<times> putResult" where
  "putTx_meta env bucketID key idem etag ctype useBlobID useSize d =
     (let verID = en_version_id env
      in case InsertObjectVersionTx (en_now env) bucketID key verID useBlobID useSize etag ctype d of
           Inl e \<Rightarrow> (Inl e, put_no_result)
         | Inr d1 \<Rightarrow>
        (case UpsertObjectTx (en_now env) bucketID key useBlobID useSize etag ctype verID d1 of
           Inl e \<Rightarrow> (Inl e, put_no_result)
         | Inr d2 \<Rightarrow>
        (case SetHeadVersionTx bucketID key verID d2 of
           Inl e \<Rightarrow> (Inl e, put_no_result)
         | Inr d3 \<Rightarrow>
        (let d4 = (if idem \<noteq> []
                   then (case SaveIdempotencyTx (en_now env) bucketID key idem verID etag d3 of
                           Inl e \<Rightarrow> d3 | Inr d' \<Rightarrow> d')
                   else d3)
         in (Inr d4, \<lparr>pr_versionID = verID, pr_etag = etag, pr_blobID = useBlobID,
                      pr_size = useSize, pr_status = 200\<rparr>)))))"

text \<open>Deduplication by checksum, then the rest.\<close>

definition putTx_dedup ::
  "Env \<Rightarrow> nat \<Rightarrow> string \<Rightarrow> string \<Rightarrow> string \<Rightarrow> string \<Rightarrow> string \<Rightarrow> int \<Rightarrow> Storage \<Rightarrow> DB \<Rightarrow> putTxOut" where
  "putTx_dedup env bucketID key idem checksum etag ctype sz fs d =
     (let newBlobID = en_blob_id env
      in case FindBlobByChecksumTx checksum d of
           Inr exist \<Rightarrow>
             (let (tx, res) = putTx_meta env bucketID key idem etag ctype (bl_id exist) (bl_size exist) d
              in \<lparr>po_tx = tx, po_res = res, po_staged = False, po_usedNew = False,
                  po_files = storage_Delete newBlobID fs\<rparr>)
         | Inl e \<Rightarrow>
             if e \<noteq> ErrNotFound
             then \<lparr>po_tx = Inl e, po_res = put_no_result, po_staged = True, po_usedNew = False,
                   po_files = storage_Delete newBlobID fs\<rparr>
             else (case ReserveBlobPendingTx (en_now env) newBlobID checksum sz ''local'' d of
                     Inl e' \<Rightarrow>
                       \<lparr>po_tx = Inl e', po_res = put_no_result, po_staged = True, po_usedNew = False,
                        po_files = storage_Delete newBlobID fs\<rparr>
                   | Inr d1 \<Rightarrow>
                  (case MarkBlobReadyTx newBlobID d1 of
                     Inl e' \<Rightarrow>
                       \<lparr>po_tx = Inl e', po_res = put_no_result, po_staged = True, po_usedNew = False,
                        po_files = fs\<rparr>
                   | Inr d2 \<Rightarrow>
                       (let (tx, res) = putTx_meta env bucketID key idem etag ctype newBlobID sz d2
                        in \<lparr>po_tx = tx, po_res = res, po_staged = True, po_usedNew = True,
                            po_files = fs\<rparr>))))"

text \<open>The lock and the idempotency probe, then the rest.\<close>

definition putTx ::
  "Env \<Rightarrow> nat \<Rightarrow> string \<Rightarrow> string \<Rightarrow> string \<Rightarrow> string \<Rightarrow> string \<Rightarrow> int \<Rightarrow> Storage \<Rightarrow> DB \<Rightarrow> putTxOut" where
  "putTx env bucketID key idem checksum etag ctype sz fs d =
     (case LockObjectForUpdate (en_now env) bucketID key d of
        Inl e \<Rightarrow> \<lparr>po_tx = Inl e, po_res = put_no_result, po_staged = True, po_usedNew = False,
                  po_files = fs\<rparr>
      | Inr d1 \<Rightarrow>
          (case (if idem \<noteq> [] then GetIdempotencyTx bucketID key idem d1 else Inl ErrNotFound) of
             Inr (verID, e) \<Rightarrow>
               \<lparr>po_tx = Inr d1,
                po_res = \<lparr>pr_versionID = verID, pr_etag = e, pr_blobID = [], pr_size = 0,
                          pr_status = 200\<rparr>,
                po_staged = True, po_usedNew = False, po_files = fs\<rparr>
           | Inl er \<Rightarrow>
               if er \<noteq> ErrNotFound
               then \<lparr>po_tx = Inl er, po_res = put_no_result, po_staged = True, po_usedNew = False,
                     po_files = fs\<rparr>
               else putTx_dedup env bucketID key idem checksum etag ctype sz fs d1))"

definition handlePut :: "Env \<Rightarrow> Request \<Rightarrow> Server \<Rightarrow> Response \<times> Server" where
  "handlePut env r s =
     (case parseBucketKey (rq_path r) of
        Inl e \<Rightarrow> (writeS3Error [] 400 ''InvalidRequest'' e (rq_path r), s)
      | Inr (bucket, key) \<Rightarrow>
     (let (bucketID, d0) = EnsureBucket (en_now env) bucket (rq_owner r) (sv_db s);
          newBlobID = en_blob_id env;
          fs0 = storage_Put newBlobID (rq_body r) (sv_files s);
          sz = int (length (rq_body r));
          sumHex = en_sha256_hex env (rq_body r);
          checksum = ''sha256:'' @ sumHex;
          etag = [CHR 0x22] @ checksum @ [CHR 0x22];
          ctype = (if header_Get (rq_header r) ''Content-Type'' = [] then ''application/octet-stream''
                   else header_Get (rq_header r) ''Content-Type'');
          want = header_Get (rq_header r) ''x-amz-content-sha256'';
          idem = header_Get (rq_header r) ''X-Idempotency-Key''
      in if rq_content_length r \<ge> 0 \<and> sz \<noteq> rq_content_length r
         then (writeS3Error [] 400 ''BadDigest'' ''mismatched content length'' (rq_path r),
               \<lparr>sv_db = d0, sv_files = storage_Delete newBlobID fs0\<rparr>)
         else if want \<noteq> [] \<and> want \<noteq> sumHex \<and> want \<noteq> ''UNSIGNED-PAYLOAD''
         then (writeS3Error [] 400 ''BadDigest'' ''sha256 mismatch'' (rq_path r),
               \<lparr>sv_db = d0, sv_files = storage_Delete newBlobID fs0\<rparr>)
         else
           (let out = putTx env bucketID key idem checksum etag ctype sz fs0 d0
            in case po_tx out of
                 Inl e \<Rightarrow>
                   (writeS3Error [] 500 ''InternalError'' ''tx error'' (rq_path r),
                    \<lparr>sv_db = d0,
                     sv_files = (if po_staged out then storage_Delete newBlobID (po_files out)
                                 else po_files out)\<rparr>)
               | Inr d1 \<Rightarrow>
                   (\<lparr>rs_status = (if pr_versionID (po_res out) \<noteq> [] then pr_status (po_res out)
                                  else 200),
                     rs_header = header_Set ''Content-Type'' ''application/xml''
                                   (header_Set ''x-amz-version-id'' (pr_versionID (po_res out))
                                      (header_Set ''ETag'' (pr_etag (po_res out)) [])),
                     rs_body = NoBody\<rparr>,
                    \<lparr>sv_db = d1,
                     sv_files = (if po_staged out \<and> \<not> po_usedNew out
                                 then storage_Delete newBlobID (po_files out)
                                 else po_files out)\<rparr>))))"


subsection \<open>GET object\<close>

text \<open>
  The \<open>Range\<close> block of \<open>handleGet\<close>: either 416, or the start, the length (-1: to the
  end), the status and the \<open>Content-Range\<close> header. Only \<open>bs - as + 1\<close> can leave the
  range of \<open>int64\<close>.
\<close>

datatype range_result = RangeNotSatisfiable | RangeOK int int nat "string option"

definition content_range :: "int \<Rightarrow> int \<Rightarrow> int \<Rightarrow> string" where
  "content_range a b tot = ''bytes '' @ fmt_d a @ ''-'' @ fmt_d b @ ''/'' @ fmt_d tot"

definition handleGet_range :: "string \<Rightarrow> int \<Rightarrow> range_result" where
  "handleGet_range rng tot =
     (if HasPrefix rng ''bytes='' then
        (let spec = TrimPrefix rng ''bytes='';
             (a, z) = (case IndexByte spec CHR ''-'' of
                         Some i \<Rightarrow> (take i spec, drop (Suc i) spec)
                       | None \<Rightarrow> ([], []))
         in if a \<noteq> [] \<and> z \<noteq> [] then
              (let as = ParseInt a; bs = ParseInt z
               in if as < 0 \<or> bs < as \<or> as \<ge> tot then RangeNotSatisfiable
                  else RangeOK as (wrap64 (bs - as + 1)) 206 (Some (content_range as bs tot)))
            else if a \<noteq> [] \<and> z = [] then
              (let as = ParseInt a
               in if as < 0 \<or> as \<ge> tot then RangeNotSatisfiable
                  else RangeOK as (tot - as) 206 (Some (content_range as (tot - 1) tot)))
            else if a = [] \<and> z \<noteq> [] then
              (let zs0 = ParseInt z
               in if zs0 \<le> 0 then RangeNotSatisfiable
                  else (let zs = (if zs0 > tot then tot else zs0)
                        in RangeOK (tot - zs) zs 206
                             (Some (content_range (tot - zs) (tot - 1) tot))))
            else RangeOK 0 (- 1) 200 None)
      else RangeOK 0 (- 1) 200 None)"

text \<open>
  The conditional block of \<open>handleGet\<close>: an early answer (412 or 304, no header set
  yet), or the headers to go on with.
\<close>

definition handleGet_predicates ::
  "Request \<Rightarrow> ObjectVersion \<Rightarrow> Response + (string \<times> string) list" where
  "handleGet_predicates r ver =
     (case ov_etag ver of
        None \<Rightarrow> Inr []
      | Some etag \<Rightarrow>
          (let ifMatch = header_Get (rq_header r) ''If-Match'';
               ifNone = header_Get (rq_header r) ''If-None-Match''
           in if ifMatch \<noteq> [] \<and> stripQuotes ifMatch \<noteq> stripQuotes etag
              then Inl \<lparr>rs_status = 412, rs_header = [], rs_body = NoBody\<rparr>
              else if ifNone \<noteq> [] \<and> stripQuotes ifNone = stripQuotes etag
              then Inl \<lparr>rs_status = 304, rs_header = [], rs_body = NoBody\<rparr>
              else Inr (header_Set ''ETag'' etag [])))"

definition handleGet :: "Request \<Rightarrow> Server \<Rightarrow> Response outcome" where
  "handleGet r s =
     (case parseBucketKey (rq_path r) of
        Inl e \<Rightarrow> Returned (writeS3Error [] 400 ''InvalidRequest'' e (rq_path r))
      | Inr (bucket, key) \<Rightarrow>
     (case BucketIDByName bucket (rq_owner r) (sv_db s) of
        Inl e \<Rightarrow>
          Returned (if e = ErrNotFound
                    then writeS3Error [] 404 ''NoSuchBucket'' ''The specified bucket does not exist.''
                           (''/'' @ bucket)
                    else writeS3Error [] 500 ''InternalError'' ''db error'' (rq_path r))
      | Inr bucketID \<Rightarrow>
     (let versionID = query_Get (rq_query r) ''versionId'';
          lookup = (if versionID = [] then GetHeadVersionTx bucketID key (sv_db s)
                    else GetVersionTx versionID (sv_db s))
      in case lookup of
           Inl e \<Rightarrow>
             Returned (if e = ErrNotFound
                       then writeS3Error [] 404 ''NoSuchKey'' ''The specified key does not exist.''
                              (rq_path r)
                       else writeS3Error [] 500 ''InternalError'' ''db error'' (rq_path r))
         | Inr ver \<Rightarrow>
             if ov_is_delete ver
             then Returned (writeS3Error [] 404 ''NoSuchKey'' ''The specified key does not exist.''
                              (rq_path r))
             else
            (case ov_blob_id ver of
               None \<Rightarrow> Panicked
             | Some blobID \<Rightarrow>
            (case GetBlob blobID (sv_db s) of
               Inl e \<Rightarrow> Returned (writeS3Error [] 500 ''InternalError'' ''blob missing'' (rq_path r))
             | Inr b \<Rightarrow>
            (case handleGet_predicates r ver of
               Inl early \<Rightarrow> Returned early
             | Inr h0 \<Rightarrow>
            (let h1 = header_Set ''x-amz-version-id'' (ov_version_id ver) h0;
                 ct = (case ov_content_type ver of
                         None \<Rightarrow> ''application/octet-stream''
                       | Some c \<Rightarrow> if c \<noteq> [] then c else ''application/octet-stream'');
                 h2 = header_Set ''Accept-Ranges'' ''bytes'' (header_Set ''Content-Type'' ct h1);
                 tot = bl_size b
             in case handleGet_range (header_Get (rq_header r) ''Range'') tot of
                  RangeNotSatisfiable \<Rightarrow> Returned \<lparr>rs_status = 416, rs_header = h2, rs_body = NoBody\<rparr>
                | RangeOK start len status cr \<Rightarrow>
                 (let h3 = (case cr of None \<Rightarrow> h2 | Some v \<Rightarrow> header_Set ''Content-Range'' v h2)
                  in case storage_ReadAt blobID start len (sv_files s) of
                       None \<Rightarrow> Returned (writeS3Error h3 500 ''InternalError'' ''read error'' (rq_path r))
                     | Some bytes \<Rightarrow>
                         Returned \<lparr>rs_status = status,
                                   rs_header = header_Set ''Content-Length''
                                                 (if len \<ge> 0 then fmt_d len else fmt_d tot) h3,
                                   rs_body = Bytes bytes\<rparr>))))))))"

subsection \<open>DELETE object\<close>

record delResult =
  dr_returnVersion :: string
  dr_status :: nat

text \<open>Blob garbage collection after a version was removed (handler and lifecycle alike).\<close>

definition gc_blob_of :: "string option \<Rightarrow> DB \<times> Storage \<Rightarrow> DB \<times> Storage" where
  "gc_blob_of blobID st =
     (case blobID of
        None \<Rightarrow> st
      | Some b \<Rightarrow>
          if BlobRefCountFromVersionsTx b (fst st) = 0
          then ((case DeleteBlobRecordTx b (fst st) of Inl e \<Rightarrow> fst st | Inr d \<Rightarrow> d),
                storage_Delete b (snd st))
          else st)"

text \<open>
  The transaction of \<open>handleDelete\<close>. The errors of the head rewiring are dropped by the
  source (\<open>_ =\<close>), so a failed step there leaves the state of the step before.
\<close>

definition ignore_err :: "DB \<Rightarrow> err + DB \<Rightarrow> DB" where
  "ignore_err d r = (case r of Inl e \<Rightarrow> d | Inr d' \<Rightarrow> d')"

definition deleteTx ::
  "Env \<Rightarrow> nat \<Rightarrow> string \<Rightarrow> string \<Rightarrow> Storage \<Rightarrow> DB \<Rightarrow> (err + DB \<times> delResult) \<times> Storage" where
  "deleteTx env bucketID key versionID fs d =
     (case LockObjectForUpdate (en_now env) bucketID key d of
        Inl e \<Rightarrow> (Inl e, fs)
      | Inr d1 \<Rightarrow>
          if versionID = [] then
            (let dm = en_version_id env
             in case CreateDeleteMarkerTx (en_now env) bucketID key dm d1 of
                  Inl e \<Rightarrow> (Inl e, fs)
                | Inr d2 \<Rightarrow>
               (case SetHeadVersionTx bucketID key dm d2 of
                  Inl e \<Rightarrow> (Inl e, fs)
                | Inr d3 \<Rightarrow> (Inr (d3, \<lparr>dr_returnVersion = dm, dr_status = 204\<rparr>), fs)))
          else
            (case GetVersionTx versionID d1 of
               Inl e \<Rightarrow>
                 if e = ErrNotFound then (Inr (d1, \<lparr>dr_returnVersion = [], dr_status = 404\<rparr>), fs)
                 else (Inl e, fs)
             | Inr ver \<Rightarrow>
            (case DeleteVersionTx versionID d1 of
               Inl e \<Rightarrow> (Inl e, fs)
             | Inr d2 \<Rightarrow>
                (let rehead =
                       (case GetHeadVersionTx bucketID key d2 of
                          Inl e \<Rightarrow> True
                        | Inr h \<Rightarrow> ov_version_id h = versionID);
                     d3 = (if rehead then
                             (case GetPrevVersionTx bucketID key versionID d2 of
                                Inr prev \<Rightarrow>
                                  ignore_err d2 (SetHeadVersionTx bucketID key (ov_version_id prev) d2)
                              | Inl e \<Rightarrow>
                                  (let dm = en_version_id env;
                                       d2a = ignore_err d2 (CreateDeleteMarkerTx (en_now env) bucketID key dm d2)
                                   in ignore_err d2a (SetHeadVersionTx bucketID key dm d2a)))
                           else d2);
                     (d4, fs') = gc_blob_of (ov_blob_id ver) (d3, fs)
                 in (Inr (d4, \<lparr>dr_returnVersion = versionID, dr_status = 204\<rparr>), fs')))))"

definition handleDelete :: "Env \<Rightarrow> Request \<Rightarrow> Server \<Rightarrow> Response \<times> Server" where
  "handleDelete env r s =
     (case parseBucketKey (rq_path r) of
        Inl e \<Rightarrow> (writeS3Error [] 400 ''InvalidRequest'' e (rq_path r), s)
      | Inr (bucket, key) \<Rightarrow>
     (case BucketIDByName bucket (rq_owner r) (sv_db s) of
        Inl e \<Rightarrow>
          (if e = ErrNotFound
           then writeS3Error [] 404 ''NoSuchBucket'' ''The specified bucket does not exist.''
                  (''/'' @ bucket)
           else writeS3Error [] 500 ''InternalError'' ''db error'' (rq_path r), s)
      | Inr bucketID \<Rightarrow>
     (let versionID = query_Get (rq_query r) ''versionId''
      in case deleteTx env bucketID key versionID (sv_files s) (sv_db s) of
           (Inl e, fs) \<Rightarrow>
             (writeS3Error [] 500 ''InternalError'' ''tx error'' (rq_path r),
              \<lparr>sv_db = sv_db s, sv_files = fs\<rparr>)
         | (Inr (d, res), fs) \<Rightarrow>
             (if dr_status res = 404
              then writeS3Error [] 404 ''NoSuchVersion'' ''The specified version does not exist.''
                     (rq_path r)
              else \<lparr>rs_status = dr_status res,
                    rs_header = header_Set ''x-amz-version-id'' (dr_returnVersion res) [],
                    rs_body = NoBody\<rparr>,
              \<lparr>sv_db = d, sv_files = fs\<rparr>))))"

subsection \<open>DELETE bucket\<close>

text \<open>
  After the transaction the handler answers 409 for \<open>ErrBucketNotEmpty\<close>; every other
  result, \<open>nil\<close> included, reaches the unguarded \<open>InternalError\<close> answer and its
  \<open>return\<close>. The \<open>WriteHeader(http.StatusNoContent)\<close> below it is never reached.
\<close>

definition handleDeleteBucket :: "Request \<Rightarrow> string \<Rightarrow> Server \<Rightarrow> Response \<times> Server" where
  "handleDeleteBucket r bucket s =
     (if bucket = []
      then (\<lparr>rs_status = 400, rs_header = [], rs_body = Bytes ''empty bucket name''\<rparr>, s)
      else
     (case BucketIDByName bucket (rq_owner r) (sv_db s) of
        Inl e \<Rightarrow>
          (if e = ErrNotFound
           then writeS3Error [] 404 ''NoSuchBucket'' ''The specified bucket does not exist.''
                  (''/'' @ bucket)
           else writeS3Error [] 500 ''InternalError'' ''db error'' (rq_path r), s)
      | Inr bucketID \<Rightarrow>
     (case DeleteBucketIfEmpty bucketID (sv_db s) of
        Inl e \<Rightarrow>
          if e = ErrBucketNotEmpty
          then (writeS3Error [] 409 ''BucketNotEmpty'' ''The bucket you tried to delete is not empty.''
                  (''/'' @ bucket), s)
          else (writeS3Error [] 500 ''InternalError'' ''db error'' (rq_path r), s)
      | Inr d \<Rightarrow>
          (writeS3Error [] 500 ''InternalError'' ''db error'' (rq_path r), s\<lparr>sv_db := d\<rparr>))))"


subsection \<open>PUT bucket lifecycle\<close>

text \<open>The decoded XML body, and \<open>ruleFromXML\<close>, which never sets the purge threshold.\<close>

record Expiration =
  ex_Days :: "int option"

record NoncurrentVersionExpiration =
  nv_NoncurrentDays :: "int option"
  nv_NewerNoncurrentVersions :: "int option"

record Rule =
  ru_ID :: string
  ru_Status :: string
  ru_Filter :: "string option"
  ru_Expiration :: "Expiration option"
  ru_NoncurrentVersionExpiration :: "NoncurrentVersionExpiration option"

definition ruleFromXML :: "nat \<Rightarrow> Rule \<Rightarrow> LifecycleRule" where
  "ruleFromXML bucketID x =
     \<lparr>lr_bucket_id = bucketID,
      lr_prefix = (case ru_Filter x of None \<Rightarrow> [] | Some p \<Rightarrow> p),
      lr_enabled = EqualFold (ru_Status x) ''Enabled'',
      lr_ExpireCurrentAfterDays = (case ru_Expiration x of None \<Rightarrow> None | Some e \<Rightarrow> ex_Days e),
      lr_ExpireNoncurrentAfterDays =
        (case ru_NoncurrentVersionExpiration x of None \<Rightarrow> None | Some n \<Rightarrow> nv_NoncurrentDays n),
      lr_NoncurrentNewerVersionsToKeep =
        (case ru_NoncurrentVersionExpiration x of None \<Rightarrow> None | Some n \<Rightarrow> nv_NewerNoncurrentVersions n),
      lr_PurgeDeleteMarkersAfterDays = None\<rparr>"

text \<open>\<open>handlePutBucketLifecycle\<close>, given the rules that the XML decoder read.\<close>

definition handlePutBucketLifecycle :: "Request \<Rightarrow> string \<Rightarrow> Rule list \<Rightarrow> Server \<Rightarrow> Response \<times> Server" where
  "handlePutBucketLifecycle r bucket cfg s =
     (case BucketIDByName bucket (rq_owner r) (sv_db s) of
        Inl e \<Rightarrow>
          (if e = ErrNotFound
           then writeS3Error [] 404 ''NoSuchBucket'' ''The specified bucket does not exist.''
                  (''/'' @ bucket)
           else writeS3Error [] 500 ''InternalError'' ''db error'' (rq_path r), s)
      | Inr bucketID \<Rightarrow>
          (\<lparr>rs_status = 200, rs_header = [], rs_body = NoBody\<rparr>,
           s\<lparr>sv_db := (sv_db s)\<lparr>lifecycle_rules :=
                  filter (\<lambda>x. lr_bucket_id x \<noteq> bucketID) (lifecycle_rules (sv_db s)) @
                  map (ruleFromXML bucketID) cfg\<rparr>\<rparr>))"

section \<open>The lifecycle worker\<close>

subsection \<open>Listing queries\<close>

definition ListEnabledLifecycleRules :: "DB \<Rightarrow> LifecycleRule list" where
  "ListEnabledLifecycleRules d = filter lr_enabled (lifecycle_rules d)"

definition ListNoncurrentByAge :: "nat \<Rightarrow> string \<Rightarrow> time \<Rightarrow> nat \<Rightarrow> DB \<Rightarrow> ObjectVersion list" where
  "ListNoncurrentByAge bucketID prefix olderThan limit d =
     take limit (sort_key ov_created_at
       (filter (\<lambda>v. ov_bucket_id v = bucketID \<and> sql_like (prefix @ ''%'') (ov_key v) \<and>
                     \<not> ov_is_delete v \<and> ov_created_at v < olderThan) (object_versions d)))"

text \<open>The join with \<open>objects\<close> and the exclusion of the head, as both raw queries have it.\<close>

definition noncurrent_row :: "DB \<Rightarrow> nat \<Rightarrow> ObjectVersion \<Rightarrow> bool" where
  "noncurrent_row d bucketID v =
     (ov_bucket_id v = bucketID \<and> \<not> ov_is_delete v \<and>
      (case find (\<lambda>x. ob_bucket_id x = ov_bucket_id v \<and> ob_key x = ov_key v) (objects d) of
         None \<Rightarrow> False
       | Some x \<Rightarrow> ov_version_id v \<noteq> ob_head_version_id x))"

text \<open>The second query selects four columns; the others keep Go's zero values.\<close>

definition keep_columns :: "ObjectVersion \<Rightarrow> ObjectVersion" where
  "keep_columns v =
     \<lparr>ov_version_id = ov_version_id v, ov_bucket_id = ov_bucket_id v, ov_key = ov_key v,
      ov_blob_id = ov_blob_id v, ov_size = None, ov_etag = None, ov_content_type = None,
      ov_is_delete = False, ov_created_at = 0\<rparr>"

fun keep_newest_rows :: "DB \<Rightarrow> nat \<Rightarrow> int \<Rightarrow> string list \<Rightarrow> nat \<Rightarrow> ObjectVersion list" where
  "keep_newest_rows d bucketID keep [] left = []"
| "keep_newest_rows d bucketID keep (k # ks) left =
     (if left = 0 then []
      else (let rows = take left (drop (nat keep)
                         (rev (sort_key (\<lambda>v. (ov_created_at v, ov_version_id v))
                                (filter (\<lambda>v. noncurrent_row d bucketID v \<and> ov_key v = k)
                                   (object_versions d)))))
            in map keep_columns rows @ keep_newest_rows d bucketID keep ks (left - length rows)))"

definition ListNoncurrentKeepNewest :: "nat \<Rightarrow> string \<Rightarrow> int \<Rightarrow> nat \<Rightarrow> DB \<Rightarrow> ObjectVersion list" where
  "ListNoncurrentKeepNewest bucketID prefix keep limit d =
     (let cand = filter (\<lambda>v. noncurrent_row d bucketID v \<and> sql_like (prefix @ ''%'') (ov_key v))
                   (object_versions d);
          keys = filter (\<lambda>k. int (length (filter (\<lambda>v. ov_key v = k) cand)) > keep)
                   (sort (remdups (map ov_key cand)))
      in if keys = [] \<or> limit = 0 then [] else keep_newest_rows d bucketID keep keys limit)"

definition ListDeleteMarkersForPurge :: "nat \<Rightarrow> string \<Rightarrow> time \<Rightarrow> nat \<Rightarrow> DB \<Rightarrow> ObjectVersion list" where
  "ListDeleteMarkersForPurge bucketID prefix olderThan limit d =
     take limit (sort_key ov_created_at
       (filter (\<lambda>v. ov_bucket_id v = bucketID \<and> sql_like (prefix @ ''%'') (ov_key v) \<and>
                     ov_is_delete v \<and> ov_created_at v < olderThan) (object_versions d)))"

definition ListHeadsOlderThan :: "nat \<Rightarrow> string \<Rightarrow> time \<Rightarrow> nat \<Rightarrow> DB \<Rightarrow> Object list" where
  "ListHeadsOlderThan bucketID prefix olderThan limit d =
     take limit (sort_key ob_created_at
       (filter (\<lambda>x. ob_bucket_id x = bucketID \<and> sql_like (prefix @ ''%'') (ob_key x) \<and>
                     ob_created_at x < olderThan) (objects d)))"

subsection \<open>The steps, one transaction per candidate\<close>

text \<open>
  A failed transaction is rolled back and not counted; the loop goes on. The worker's
  state between transactions is the server and the counter \<open>changed\<close>.
\<close>

definition deleteVersion_tx :: "time \<Rightarrow> ObjectVersion \<Rightarrow> Server \<times> nat \<Rightarrow> Server \<times> nat" where
  "deleteVersion_tx now v st =
     (case LockObjectForUpdate now (ov_bucket_id v) (ov_key v) (sv_db (fst st)) of
        Inl e \<Rightarrow> st
      | Inr d1 \<Rightarrow>
     (case DeleteVersionTx (ov_version_id v) d1 of
        Inl e \<Rightarrow> st
      | Inr d2 \<Rightarrow>
          (let (d3, fs) = gc_blob_of (ov_blob_id v) (d2, sv_files (fst st))
           in (\<lparr>sv_db = d3, sv_files = fs\<rparr>, Suc (snd st)))))"

definition deleteVersionsTx :: "time \<Rightarrow> ObjectVersion list \<Rightarrow> Server \<Rightarrow> Server \<times> nat" where
  "deleteVersionsTx now vers s = foldl (\<lambda>st v. deleteVersion_tx now v st) (s, 0) vers"

definition purgeDeleteMarker_tx :: "time \<Rightarrow> ObjectVersion \<Rightarrow> Server \<times> nat \<Rightarrow> Server \<times> nat" where
  "purgeDeleteMarker_tx now dm st =
     (case LockObjectForUpdate now (ov_bucket_id dm) (ov_key dm) (sv_db (fst st)) of
        Inl e \<Rightarrow> st
      | Inr d1 \<Rightarrow>
          if (case GetHeadVersionTx (ov_bucket_id dm) (ov_key dm) d1 of
                Inl e \<Rightarrow> False
              | Inr head \<Rightarrow> ov_version_id head = ov_version_id dm)
          then ((fst st)\<lparr>sv_db := d1\<rparr>, snd st)
          else (case DeleteVersionTx (ov_version_id dm) d1 of
                  Inl e \<Rightarrow> st
                | Inr d2 \<Rightarrow> ((fst st)\<lparr>sv_db := d2\<rparr>, Suc (snd st))))"

definition purgeDeleteMarkersTx :: "time \<Rightarrow> ObjectVersion list \<Rightarrow> Server \<Rightarrow> Server \<times> nat" where
  "purgeDeleteMarkersTx now dms s = foldl (\<lambda>st dm. purgeDeleteMarker_tx now dm st) (s, 0) dms"

text \<open>
  \<open>expireCurrentTx\<close> draws one version id per object; \<open>gen i\<close> is the \<open>i\<close>-th id that
  \<open>GenVersionID\<close> returns in the pass, and the third component counts the draws.
\<close>

definition expireCurrent_tx ::
  "time \<Rightarrow> (nat \<Rightarrow> string) \<Rightarrow> Object \<Rightarrow> Server \<times> nat \<times> nat \<Rightarrow> Server \<times> nat \<times> nat" where
  "expireCurrent_tx now gen x st =
     (case st of (s, changed, drawn) \<Rightarrow>
     (case LockObjectForUpdate now (ob_bucket_id x) (ob_key x) (sv_db s) of
        Inl e \<Rightarrow> st
      | Inr d1 \<Rightarrow>
     (let dm = gen drawn
      in case CreateDeleteMarkerTx now (ob_bucket_id x) (ob_key x) dm d1 of
           Inl e \<Rightarrow> (s, changed, Suc drawn)
         | Inr d2 \<Rightarrow>
        (case SetHeadVersionTx (ob_bucket_id x) (ob_key x) dm d2 of
           Inl e \<Rightarrow> (s, changed, Suc drawn)
         | Inr d3 \<Rightarrow> (s\<lparr>sv_db := d3\<rparr>, Suc changed, Suc drawn)))))"

definition expireCurrentTx ::
  "time \<Rightarrow> (nat \<Rightarrow> string) \<Rightarrow> nat \<Rightarrow> Object list \<Rightarrow> Server \<Rightarrow> Server \<times> nat \<times> nat" where
  "expireCurrentTx now gen drawn objs s =
     foldl (\<lambda>st x. expireCurrent_tx now gen x st) (s, 0, drawn) objs"

subsection \<open>One pass\<close>

text \<open>\<open>time.Now().AddDate(0, 0, -days)\<close> on the UTC time line.\<close>

definition cut_time :: "time \<Rightarrow> int \<Rightarrow> time" where
  "cut_time now days = now - days * 86400"

record passState =
  ps_server :: Server
  ps_totalChanged :: nat
  ps_drawn :: nat

definition rule_noncurrent_by_age :: "time \<Rightarrow> nat \<Rightarrow> LifecycleRule \<Rightarrow> passState \<Rightarrow> passState" where
  "rule_noncurrent_by_age now batch rule st =
     (case lr_ExpireNoncurrentAfterDays rule of
        None \<Rightarrow> st
      | Some n \<Rightarrow>
          if n \<ge> 0 then
            (let cut = cut_time now n;
                 vers = ListNoncurrentByAge (lr_bucket_id rule) (lr_prefix rule) cut batch
                          (sv_db (ps_server st));
                 (s', changed) = deleteVersionsTx now vers (ps_server st)
             in st\<lparr>ps_server := s', ps_totalChanged := ps_totalChanged st + changed\<rparr>)
          else st)"

definition rule_keep_newest :: "time \<Rightarrow> nat \<Rightarrow> LifecycleRule \<Rightarrow> passState \<Rightarrow> passState" where
  "rule_keep_newest now batch rule st =
     (case lr_NoncurrentNewerVersionsToKeep rule of
        None \<Rightarrow> st
      | Some k \<Rightarrow>
          if k \<ge> 0 then
            (let vers = ListNoncurrentKeepNewest (lr_bucket_id rule) (lr_prefix rule) k batch
                          (sv_db (ps_server st));
                 (s', changed) = deleteVersionsTx now vers (ps_server st)
             in st\<lparr>ps_server := s', ps_totalChanged := ps_totalChanged st + changed\<rparr>)
          else st)"

definition rule_purge_delete_markers :: "time \<Rightarrow> nat \<Rightarrow> LifecycleRule \<Rightarrow> passState \<Rightarrow> passState" where
  "rule_purge_delete_markers now batch rule st =
     (case lr_PurgeDeleteMarkersAfterDays rule of
        None \<Rightarrow> st
      | Some p \<Rightarrow>
          if p \<ge> 0 then
            (let cut = cut_time now p;
                 dms = ListDeleteMarkersForPurge (lr_bucket_id rule) (lr_prefix rule) cut batch
                         (sv_db (ps_server st));
                 (s', changed) = purgeDeleteMarkersTx now dms (ps_server st)
             in st\<lparr>ps_server := s', ps_totalChanged := ps_totalChanged st + changed\<rparr>)
          else st)"

text \<open>
  The fourth action is guarded by \<open>ExpireCurrentAfterDays\<close> and computes its cut from
  \<open>*rule.PurgeDeleteMarkersAfterDays\<close>: a nil pointer there is a run-time panic, which
  nothing in the worker's goroutine recovers.
\<close>

definition rule_expire_current ::
  "time \<Rightarrow> (nat \<Rightarrow> string) \<Rightarrow> nat \<Rightarrow> LifecycleRule \<Rightarrow> passState \<Rightarrow> passState outcome" where
  "rule_expire_current now gen batch rule st =
     (case lr_ExpireCurrentAfterDays rule of
        None \<Rightarrow> Returned st
      | Some c \<Rightarrow>
          if c \<ge> 0 then
            (case lr_PurgeDeleteMarkersAfterDays rule of
               None \<Rightarrow> Panicked
             | Some p \<Rightarrow>
                 (let cut = cut_time now p;
                      objs = ListHeadsOlderThan (lr_bucket_id rule) (lr_prefix rule) cut batch
                               (sv_db (ps_server st));
                      (s', changed, drawn) = expireCurrentTx now gen (ps_drawn st) objs (ps_server st)
                  in Returned \<lparr>ps_server = s', ps_totalChanged = ps_totalChanged st + changed,
                               ps_drawn = drawn\<rparr>))
          else Returned st)"

definition apply_rule ::
  "time \<Rightarrow> (nat \<Rightarrow> string) \<Rightarrow> nat \<Rightarrow> LifecycleRule \<Rightarrow> passState \<Rightarrow> passState outcome" where
  "apply_rule now gen batch rule st =
     rule_expire_current now gen batch rule
       (rule_purge_delete_markers now batch rule
          (rule_keep_newest now batch rule
             (rule_noncurrent_by_age now batch rule st)))"

fun apply_rules ::
  "time \<Rightarrow> (nat \<Rightarrow> string) \<Rightarrow> nat \<Rightarrow> LifecycleRule list \<Rightarrow> passState \<Rightarrow> passState outcome" where
  "apply_rules now gen batch [] st = Returned st"
| "apply_rules now gen batch (rule # rest) st =
     (case apply_rule now gen batch rule st of
        Panicked \<Rightarrow> Panicked
      | Returned st' \<Rightarrow> apply_rules now gen batch rest st')"

definition onePass :: "time \<Rightarrow> (nat \<Rightarrow> string) \<Rightarrow> nat \<Rightarrow> Server \<Rightarrow> passState outcome" where
  "onePass now gen batch s =
     apply_rules now gen batch (ListEnabledLifecycleRules (sv_db s))
       \<lparr>ps_server = s, ps_totalChanged = 0, ps_drawn = 0\<rparr>"


text \<open>
  The rules on which the fourth action dereferences a nil purge threshold: the guard
  holds (a threshold that is set and not negative) and the purge threshold is not set.
\<close>

definition expire_current_without_purge :: "LifecycleRule \<Rightarrow> bool" where
  "expire_current_without_purge rule =
     ((case lr_ExpireCurrentAfterDays rule of None \<Rightarrow> False | Some c \<Rightarrow> 0 \<le> c) \<and>
      lr_PurgeDeleteMarkersAfterDays rule = None)"

section \<open>Request authentication (SigV4)\<close>

text \<open>
  SHA-256, HMAC-SHA256, \<open>time.Parse\<close> with the layout \<open>20060102T150405Z\<close>, the URL
  escaping of \<open>net/url\<close> and the clock come from Go's library and are parameters.
\<close>

record Primitives =
  pm_sha256 :: "string \<Rightarrow> string"
  pm_hmac_sha256 :: "string \<Rightarrow> string \<Rightarrow> string"
  pm_time_Parse :: "string \<Rightarrow> time option"
  pm_EscapedPath :: "string \<Rightarrow> string"
  pm_QueryEscape :: "string \<Rightarrow> string"
  pm_now :: time

datatype auth_error =
    ErrNoAuthHeader
  | ErrUnsuportedAlgorithm
  | ErrBadCredentialScope
  | ErrSignatureMismatch
  | ErrSkewedDate
  | ErrMalformedHeader
  | ErrMissingDate
  | ErrBadDate
  | ErrUnsignedPayload
  | ErrLookup err

record VerifyOptions =
  vo_MaxSkew :: int
  vo_AllowUnsignedPayload :: bool
  vo_ExpectedService :: string

record Result =
  re_AccessKeyID :: string
  re_SignedHeaders :: "string list"
  re_AmzDate :: time
  re_Region :: string
  re_ScopeDate :: string

text \<open>\<open>parseAuthzParams\<close>: the newest binding of a name is found first.\<close>

definition parseAuthzParams :: "string \<Rightarrow> (string \<times> string) list" where
  "parseAuthzParams s =
     foldl (\<lambda>out p0.
              (let p = TrimSpace p0
               in if p = [] then out
                  else (case SplitN2 p CHR ''='' of
                          [k, v] \<Rightarrow> (k, Trim v [CHR 0x22]) # out
                        | _ \<Rightarrow> out)))
       [] (Split s CHR '','')"

definition param :: "(string \<times> string) list \<Rightarrow> string \<Rightarrow> string" where
  "param ps k = (case map_of ps k of None \<Rightarrow> [] | Some v \<Rightarrow> v)"

function ReplaceAll :: "string \<Rightarrow> string \<Rightarrow> string \<Rightarrow> string" where
  "ReplaceAll [] old new = []"
| "ReplaceAll (c # cs) old new =
     (if old \<noteq> [] \<and> HasPrefix (c # cs) old
      then new @ ReplaceAll (drop (length old) (c # cs)) old new
      else c # ReplaceAll cs old new)"
  by pat_completeness auto
termination
  by (relation "measure (\<lambda>(s, old, new). length s)") auto

definition uriEncode :: "Primitives \<Rightarrow> string \<Rightarrow> bool \<Rightarrow> string" where
  "uriEncode pm s encodeSlash =
     (let e1 = ReplaceAll (pm_QueryEscape pm s) ''+'' ''%20'';
          e2 = ReplaceAll e1 ''&7E'' ''~''
      in if \<not> encodeSlash then ReplaceAll e2 ''%2F'' ''/'' else e2)"

fun compressSpaces_from :: "bool \<Rightarrow> string \<Rightarrow> string" where
  "compressSpaces_from prevSpace [] = []"
| "compressSpaces_from prevSpace (r # rs) =
     (if r = CHR '' '' \<or> r = CHR 0x09 \<or> r = CHR 0x0A \<or> r = CHR 0x0D
      then (if \<not> prevSpace then CHR '' '' # compressSpaces_from True rs
            else compressSpaces_from True rs)
      else r # compressSpaces_from False rs)"

definition compressSpaces :: "string \<Rightarrow> string" where
  "compressSpaces s = compressSpaces_from False s"

definition buildCanonicalRequest :: "Primitives \<Rightarrow> Request \<Rightarrow> string list \<Rightarrow> string \<Rightarrow> string" where
  "buildCanonicalRequest pm r signedHeaders payloadHash =
     (let uri = (if pm_EscapedPath pm (rq_path r) = [] then ''/'' else pm_EscapedPath pm (rq_path r));
          qpairs = sort (map (\<lambda>(k, v). uriEncode pm k True @ ''='' @ uriEncode pm v True) (rq_query r));
          canonicalQuery = Join qpairs ''&'';
          lcHeader = (\<lambda>h. if h = ''host'' then [rq_host r]
                           else (case find (\<lambda>p. ToLower (fst p) = h) (rq_header r) of
                                   None \<Rightarrow> [] | Some p \<Rightarrow> [snd p]));
          canonicalHeaders =
            concat (map (\<lambda>h. (let vv = (if lcHeader h = []
                                         then (if h = ''host'' then [rq_host r] else [[]])
                                         else lcHeader h)
                               in h @ '':'' @ TrimSpace (compressSpaces (Join vv '','')) @ [CHR 0x0A]))
                        signedHeaders);
          sh = Join signedHeaders '';''
      in Join [rq_method r, uri, canonicalQuery, canonicalHeaders, sh, payloadHash] [CHR 0x0A])"

definition hexSha256OfBytes :: "Primitives \<Rightarrow> string \<Rightarrow> string" where
  "hexSha256OfBytes pm p = hex_EncodeToString (pm_sha256 pm p)"

definition hmacSHA256Hex :: "Primitives \<Rightarrow> string \<Rightarrow> string \<Rightarrow> string" where
  "hmacSHA256Hex pm key data = hex_EncodeToString (pm_hmac_sha256 pm key data)"

text \<open>
  \<open>VerifySigV4\<close> returns \<open>(*Result, error)\<close>; both can be nil. After the secret was
  found, the variable \<open>err\<close> holds nil, and the branch of the failed comparison
  returns \<open>nil, err\<close>.
\<close>

definition VerifySigV4 ::
  "Primitives \<Rightarrow> (string \<Rightarrow> err + string) \<Rightarrow> VerifyOptions \<Rightarrow> Request \<Rightarrow> Result option \<times> auth_error option" where
  "VerifySigV4 pm LookupSecret opts r =
     (let authz = header_Get (rq_header r) ''Authorization''
      in if authz = [] then (None, Some ErrNoAuthHeader)
         else if \<not> HasPrefix authz ''AWS4-HMAC-SHA256 '' then (None, Some ErrUnsuportedAlgorithm)
         else
     (let params = parseAuthzParams (TrimPrefix authz ''AWS4-HMAC-SHA256 '');
          credential = param params ''Credential'';
          signedHeaderCSV = param params ''SignedHeaders'';
          signatureHex = param params ''Signature''
      in if credential = [] \<or> signedHeaderCSV = [] \<or> signatureHex = []
         then (None, Some ErrMalformedHeader)
         else
     (case Split credential CHR ''/'' of
        [accessKeyID, scopeDate, region, service, term] \<Rightarrow>
          if service \<noteq> vo_ExpectedService opts \<or> term \<noteq> ''aws4_request''
          then (None, Some ErrBadCredentialScope)
          else
         (let amzDate = (if header_Get (rq_header r) ''x-amz-date'' = []
                         then header_Get (rq_header r) ''Date''
                         else header_Get (rq_header r) ''x-amz-date'')
          in if amzDate = [] then (None, Some ErrMissingDate)
             else
            (case pm_time_Parse pm amzDate of
               None \<Rightarrow> (None, Some ErrBadDate)
             | Some t \<Rightarrow>
                 if vo_MaxSkew opts > 0 \<and> \<bar>pm_now pm - t\<bar> > vo_MaxSkew opts
                 then (None, Some ErrSkewedDate)
                 else
                (let signedHeaders = map (\<lambda>h. TrimSpace (ToLower h)) (Split signedHeaderCSV CHR '';'');
                     payloadHash = (if header_Get (rq_header r) ''x-amz-content-sha256'' = []
                                    then hexSha256OfBytes pm []
                                    else header_Get (rq_header r) ''x-amz-content-sha256'')
                 in if EqualFold payloadHash ''UNSIGNED-PAYLOAD'' \<and> \<not> vo_AllowUnsignedPayload opts
                    then (None, Some ErrUnsignedPayload)
                    else
                   (let canonicalRequest = buildCanonicalRequest pm r signedHeaders payloadHash;
                        canonHash = hexSha256OfBytes pm canonicalRequest;
                        stringToSign =
                          Join [''AWS4-HMAC-SHA256'', amzDate,
                                scopeDate @ ''/'' @ region @ ''/'' @ service @ ''/aws4_request'',
                                canonHash] [CHR 0x0A]
                    in case LookupSecret accessKeyID of
                         Inl e \<Rightarrow> (None, Some (ErrLookup e))
                       | Inr secret \<Rightarrow>
                           (let kDate = pm_hmac_sha256 pm (''AWS4'' @ secret) scopeDate;
                                kRegion = pm_hmac_sha256 pm kDate region;
                                kService = pm_hmac_sha256 pm kRegion service;
                                kSigning = pm_hmac_sha256 pm kService ''aws4_request'';
                                expectedSig = hmacSHA256Hex pm kSigning stringToSign
                            in if expectedSig \<noteq> ToLower signatureHex
                               then (None, None)
                               else (Some \<lparr>re_AccessKeyID = accessKeyID,
                                           re_SignedHeaders = signedHeaders, re_AmzDate = t,
                                           re_Region = region, re_ScopeDate = scopeDate\<rparr>,
                                     None))))))
      | _ \<Rightarrow> (None, Some ErrBadCredentialScope))))"

definition auth_error_text :: "auth_error \<Rightarrow> string" where
  "auth_error_text e =
     (case e of
        ErrNoAuthHeader \<Rightarrow> ''missing Authorization header''
      | ErrUnsuportedAlgorithm \<Rightarrow> ''unsupported algorithm''
      | ErrBadCredentialScope \<Rightarrow> ''bad credential scope''
      | ErrSignatureMismatch \<Rightarrow> ''signature does not match''
      | ErrSkewedDate \<Rightarrow> ''date skew too large''
      | ErrMalformedHeader \<Rightarrow> ''authorization header malformed''
      | ErrMissingDate \<Rightarrow> ''missing x-amz-date''
      | ErrBadDate \<Rightarrow> ''bad x-amz-date''
      | ErrUnsignedPayload \<Rightarrow> ''unsigned payload not allowed''
      | ErrLookup x \<Rightarrow> ''not found'')"

definition credProvider_LookupSecret :: "DB \<Rightarrow> string \<Rightarrow> err + string" where
  "credProvider_LookupSecret d accessKeyID =
     (case FindUserByAccessKey accessKeyID d of
        Inl e \<Rightarrow> Inl e
      | Inr u \<Rightarrow> Inr (us_secret_access_key u))"

text \<open>
  \<open>AuthMiddleware\<close> either hands the request on (with the caller's id in the context),
  or answers itself, or panics: \<open>res.AccessKeyID\<close> with \<open>res = nil\<close>. When the user
  lookup after a successful verification fails, the middleware writes nothing and the
  HTTP server sends an empty 200.
\<close>

datatype auth_decision = Forward Request | Reply Response

definition AuthMiddleware :: "bool \<Rightarrow> Primitives \<Rightarrow> Server \<Rightarrow> Request \<Rightarrow> auth_decision outcome" where
  "AuthMiddleware allowNoSign pm s r =
     (if allowNoSign \<and> header_Get (rq_header r) ''Authorization'' = [] then Returned (Forward r)
      else
     (case VerifySigV4 pm (credProvider_LookupSecret (sv_db s))
             \<lparr>vo_MaxSkew = 15 * 60, vo_AllowUnsignedPayload = True, vo_ExpectedService = ''s3''\<rparr> r of
        (res, Some e) \<Rightarrow>
          Returned (Reply (writeS3Error [] 403 ''SignatureDoesNotMatch'' (auth_error_text e) (rq_path r)))
      | (None, None) \<Rightarrow> Panicked
      | (Some res, None) \<Rightarrow>
          (case FindUserByAccessKey (re_AccessKeyID res) (sv_db s) of
             Inr u \<Rightarrow> Returned (Forward (r\<lparr>rq_owner := us_id u\<rparr>))
           | Inl e \<Rightarrow> Returned (Reply \<lparr>rs_status = 200, rs_header = [], rs_body = NoBody\<rparr>))))"

text \<open>\<open>WithRecover\<close>: a panic below it becomes a 500 answer.\<close>

definition WithRecover :: "'a outcome \<Rightarrow> ('a \<Rightarrow> Response) \<Rightarrow> Response" where
  "WithRecover out answer =
     (case out of
        Returned x \<Rightarrow> answer x
      | Panicked \<Rightarrow>
          \<lparr>rs_status = 500, rs_header = header_Set ''Content-Type'' ''application/xml'' [],
           rs_body = Bytes ''<Error><Code>InternalError</Code><Message>panic</Message></Error>''\<rparr>)"


section \<open>Head consistency\<close>

text \<open>
  The head pointer of an object row resolves when some version row of the same bucket
  and key carries the id that the row names.
\<close>

definition head_resolves :: "DB \<Rightarrow> Object \<Rightarrow> bool" where
  "head_resolves d x =
     list_ex (\<lambda>v. ov_version_id v = ob_head_version_id x \<and> ov_bucket_id v = ob_bucket_id x \<and>
                   ov_key v = ob_key x) (object_versions d)"

definition head_consistent :: "DB \<Rightarrow> bool" where
  "head_consistent d = list_all (head_resolves d) (objects d)"

section \<open>Concrete runs\<close>

text \<open>
  An empty server, and requests of caller 1. The runs below start from the empty
  server and use only the handlers and the worker.
\<close>

definition db_empty :: DB where
  "db_empty = \<lparr>buckets = [], blobs = [], objects = [], object_versions = [], users = [],
                idempotency_keys = [], lifecycle_rules = [], seq_buckets = 0, seq_objects = 0\<rparr>"

definition srv_empty :: Server where
  "srv_empty = \<lparr>sv_db = db_empty, sv_files = []\<rparr>"

definition request :: "string \<Rightarrow> string \<Rightarrow> (string \<times> string) list \<Rightarrow> (string \<times> string) list \<Rightarrow> string \<Rightarrow> Request" where
  "request method path query header body =
     \<lparr>rq_method = method, rq_path = path, rq_query = query, rq_header = header,
      rq_host = ''localhost:8080'', rq_content_length = int (length body), rq_body = body,
      rq_owner = 1\<rparr>"

definition day :: int where
  "day = 86400"

text \<open>A bucket created with \<open>PUT /photos\<close> and nothing in it.\<close>

definition srv_bucket_only :: Server where
  "srv_bucket_only = \<lparr>sv_db = snd (EnsureBucket 0 ''photos'' 1 db_empty), sv_files = []\<rparr>"

text \<open>
  One upload at time 0, then the policy of the README
  (\<open>NoncurrentVersionExpiration\<close> with \<open>NoncurrentDays = 30\<close>).
\<close>

definition srv_one_upload :: "(string \<Rightarrow> string) \<Rightarrow> Server" where
  "srv_one_upload sha =
     snd (handlePut \<lparr>en_now = 0, en_blob_id = ''b1'', en_version_id = ''v1'', en_sha256_hex = sha\<rparr>
            (request ''PUT'' ''/photos/cat.jpg'' [] [] ''hello'') srv_empty)"

definition readme_policy :: "Rule list" where
  "readme_policy =
     [\<lparr>ru_ID = ''PurgeOldVersions'', ru_Status = ''Enabled'', ru_Filter = None, ru_Expiration = None,
       ru_NoncurrentVersionExpiration =
         Some \<lparr>nv_NoncurrentDays = Some 30, nv_NewerNoncurrentVersions = None\<rparr>\<rparr>]"

definition srv_upload_and_policy :: "(string \<Rightarrow> string) \<Rightarrow> Server" where
  "srv_upload_and_policy sha =
     snd (handlePutBucketLifecycle (request ''PUT'' ''/photos'' [(''lifecycle'', [])] [] [])
            ''photos'' readme_policy (srv_one_upload sha))"


text \<open>
  The same upload under a rule whose two thresholds differ: the current version expires
  after 30 days, delete-markers are purged after 1 day.
\<close>

definition rule_expire30_purge1 :: LifecycleRule where
  "rule_expire30_purge1 =
     \<lparr>lr_bucket_id = 1, lr_prefix = [], lr_enabled = True, lr_ExpireCurrentAfterDays = Some 30,
      lr_ExpireNoncurrentAfterDays = None, lr_NoncurrentNewerVersionsToKeep = None,
      lr_PurgeDeleteMarkersAfterDays = Some 1\<rparr>"

definition srv_upload_and_expiry :: "(string \<Rightarrow> string) \<Rightarrow> Server" where
  "srv_upload_and_expiry sha =
     (srv_one_upload sha)\<lparr>sv_db := (sv_db (srv_one_upload sha))\<lparr>lifecycle_rules := [rule_expire30_purge1]\<rparr>\<rparr>"

text \<open>
  A signed request of a known, active user whose \<open>Signature\<close> is not the expected one
  (\<open>zz\<close> is not even hexadecimal). The clock reads the request's own date; the hash
  functions are arbitrary.
\<close>

definition sig_request :: Request where
  "sig_request =
     \<lparr>rq_method = ''GET'', rq_path = ''/photos/cat.jpg'', rq_query = [],
      rq_header =
        [(''Authorization'',
          ''AWS4-HMAC-SHA256 Credential=AKIDEXAMPLE/20260101/us-east-1/s3/aws4_request, SignedHeaders=host;x-amz-date, Signature=zz''),
         (''X-Amz-Date'', ''20260101T000000Z'')],
      rq_host = ''localhost:8080'', rq_content_length = 0, rq_body = [], rq_owner = 0\<rparr>"

definition srv_with_user :: Server where
  "srv_with_user =
     \<lparr>sv_db = db_empty\<lparr>users := [\<lparr>us_id = 1, us_access_key_id = ''AKIDEXAMPLE'',
                                    us_secret_access_key = ''secret'', us_status = ''active''\<rparr>]\<rparr>,
      sv_files = []\<rparr>"

definition prims :: "(string \<Rightarrow> string) \<Rightarrow> (string \<Rightarrow> string \<Rightarrow> string) \<Rightarrow> Primitives" where
  "prims sha hmac =
     \<lparr>pm_sha256 = sha, pm_hmac_sha256 = hmac,
      pm_time_Parse = (\<lambda>s. if s = ''20260101T000000Z'' then Some 1767225600 else None),
      pm_EscapedPath = (\<lambda>p. p), pm_QueryEscape = (\<lambda>p. p), pm_now = 1767225600\<rparr>"

definition middleware_options :: VerifyOptions where
  "middleware_options =
     \<lparr>vo_MaxSkew = 15 * 60, vo_AllowUnsignedPayload = True, vo_ExpectedService = ''s3''\<rparr>"

text \<open>
  Stand-ins for closed evaluations: an injective function in the place of SHA-256, and
  an id generator.
\<close>

definition stand_in_sha256_hex :: "string \<Rightarrow> string" where
  "stand_in_sha256_hex body = hex_EncodeToString body"

definition stand_in_ids :: "nat \<Rightarrow> string" where
  "stand_in_ids i = ''dm'' @ dec_nat i"

definition stand_in_hmac :: "string \<Rightarrow> string \<Rightarrow> string" where
  "stand_in_hmac k data = k @ data"

text \<open>A policy that the XML decoder accepts: \<open>Expiration\<close> with \<open>Days = -1\<close>.\<close>

definition negative_expiry_policy :: "Rule list" where
  "negative_expiry_policy =
     [\<lparr>ru_ID = ''Negative'', ru_Status = ''Enabled'', ru_Filter = None,
       ru_Expiration = Some \<lparr>ex_Days = Some (- 1)\<rparr>, ru_NoncurrentVersionExpiration = None\<rparr>]"

definition srv_negative_expiry :: Server where
  "srv_negative_expiry =
     snd (handlePutBucketLifecycle (request ''PUT'' ''/photos'' [(''lifecycle'', [])] [] [])
            ''photos'' negative_expiry_policy (srv_one_upload stand_in_sha256_hex))"

text \<open>The upload of time 0, soft-deleted on day 1: the delete-marker \<open>dm1\<close> is the head.\<close>

definition srv_soft_deleted :: Server where
  "srv_soft_deleted =
     snd (handleDelete \<lparr>en_now = day, en_blob_id = [], en_version_id = ''dm1'',
                        en_sha256_hex = stand_in_sha256_hex\<rparr>
            (request ''DELETE'' ''/photos/cat.jpg'' [] [] []) (srv_one_upload stand_in_sha256_hex))"

definition marker_dm1 :: ObjectVersion where
  "marker_dm1 =
     \<lparr>ov_version_id = ''dm1'', ov_bucket_id = 1, ov_key = ''cat.jpg'', ov_blob_id = None,
      ov_size = None, ov_etag = None, ov_content_type = None, ov_is_delete = True,
      ov_created_at = day\<rparr>"

text \<open>
  A second upload, \<open>/photos/dog.jpg\<close> with body \<open>woof\<close> (version \<open>v2\<close>, blob \<open>b2\<close>), and
  a request for the path of the first object that carries the version id of the second
  (the handlers do not read the method).
\<close>

definition srv_two_uploads :: Server where
  "srv_two_uploads =
     snd (handlePut \<lparr>en_now = day, en_blob_id = ''b2'', en_version_id = ''v2'',
                     en_sha256_hex = stand_in_sha256_hex\<rparr>
            (request ''PUT'' ''/photos/dog.jpg'' [] [] ''woof'') (srv_one_upload stand_in_sha256_hex))"

definition version_v2 :: ObjectVersion where
  "version_v2 =
     \<lparr>ov_version_id = ''v2'', ov_bucket_id = 1, ov_key = ''dog.jpg'', ov_blob_id = Some ''b2'',
      ov_size = Some 4,
      ov_etag = Some ([CHR 0x22] @ ''sha256:'' @ stand_in_sha256_hex ''woof'' @ [CHR 0x22]),
      ov_content_type = Some ''application/octet-stream'', ov_is_delete = False,
      ov_created_at = day\<rparr>"

definition get_cat_v2 :: Request where
  "get_cat_v2 = request ''GET'' ''/photos/cat.jpg'' [(''versionId'', ''v2'')] [] []"

definition env_day2 :: Env where
  "env_day2 = \<lparr>en_now = 2 * day, en_blob_id = ''b3'', en_version_id = ''v3'',
                en_sha256_hex = stand_in_sha256_hex\<rparr>"

section \<open>Byte ranges as the specification words them\<close>









section \<open>Uploads: the parts of \<open>handlePut\<close> and runs of uploads\<close>

text \<open>
  What \<open>handlePut\<close> computes from the request: the checksum, the ETag and the content
  type; the negation of its two \<open>BadDigest\<close> conditions; the version row that
  \<open>InsertObjectVersionTx\<close> appends; and the response after a committed transaction.
\<close>

definition put_checksum :: "Env \<Rightarrow> Request \<Rightarrow> string" where
  "put_checksum env r = ''sha256:'' @ en_sha256_hex env (rq_body r)"

definition put_etag :: "Env \<Rightarrow> Request \<Rightarrow> string" where
  "put_etag env r = [CHR 0x22] @ put_checksum env r @ [CHR 0x22]"

definition put_ctype :: "Request \<Rightarrow> string" where
  "put_ctype r =
     (if header_Get (rq_header r) ''Content-Type'' = [] then ''application/octet-stream''
      else header_Get (rq_header r) ''Content-Type'')"

definition put_valid :: "Env \<Rightarrow> Request \<Rightarrow> bool" where
  "put_valid env r =
     (\<not> (rq_content_length r \<ge> 0 \<and> int (length (rq_body r)) \<noteq> rq_content_length r) \<and>
      \<not> (header_Get (rq_header r) ''x-amz-content-sha256'' \<noteq> [] \<and>
         header_Get (rq_header r) ''x-amz-content-sha256'' \<noteq> en_sha256_hex env (rq_body r) \<and>
         header_Get (rq_header r) ''x-amz-content-sha256'' \<noteq> ''UNSIGNED-PAYLOAD''))"

definition new_version :: "Env \<Rightarrow> nat \<Rightarrow> string \<Rightarrow> string \<Rightarrow> int \<Rightarrow> string \<Rightarrow> string \<Rightarrow> ObjectVersion" where
  "new_version env bucketID key blobID sz etag ctype =
     \<lparr>ov_version_id = en_version_id env, ov_bucket_id = bucketID, ov_key = key,
      ov_blob_id = Some blobID, ov_size = Some sz, ov_etag = Some etag,
      ov_content_type = Some ctype, ov_is_delete = False, ov_created_at = en_now env\<rparr>"

definition put_answer :: "string \<Rightarrow> string \<Rightarrow> Response" where
  "put_answer v e =
     \<lparr>rs_status = 200,
      rs_header = header_Set ''Content-Type'' ''application/xml''
                    (header_Set ''x-amz-version-id'' v (header_Set ''ETag'' e [])),
      rs_body = NoBody\<rparr>"

text \<open>The part of \<open>handlePut\<close> that follows the transaction.\<close>

definition put_commit :: "Env \<Rightarrow> Request \<Rightarrow> DB \<Rightarrow> putTxOut \<Rightarrow> Response \<times> Server" where
  "put_commit env r d0 out =
     (case po_tx out of
        Inl e \<Rightarrow>
          (writeS3Error [] 500 ''InternalError'' ''tx error'' (rq_path r),
           \<lparr>sv_db = d0,
            sv_files = (if po_staged out then storage_Delete (en_blob_id env) (po_files out)
                        else po_files out)\<rparr>)
      | Inr d1 \<Rightarrow>
          (\<lparr>rs_status = (if pr_versionID (po_res out) \<noteq> [] then pr_status (po_res out) else 200),
            rs_header = header_Set ''Content-Type'' ''application/xml''
                          (header_Set ''x-amz-version-id'' (pr_versionID (po_res out))
                             (header_Set ''ETag'' (pr_etag (po_res out)) [])),
            rs_body = NoBody\<rparr>,
           \<lparr>sv_db = d1,
            sv_files = (if po_staged out \<and> \<not> po_usedNew out
                        then storage_Delete (en_blob_id env) (po_files out)
                        else po_files out)\<rparr>))"

text \<open>
  The request carries an idempotency key of which a record exists for its bucket and
  key: the idempotency probe of \<open>handlePut\<close> will answer it from that record.
\<close>

definition put_replayed :: "Env \<Rightarrow> Request \<Rightarrow> Server \<Rightarrow> bool" where
  "put_replayed env r s =
     (case parseBucketKey (rq_path r) of
        Inl e \<Rightarrow> False
      | Inr (bucket, key) \<Rightarrow>
          (let (bucketID, d0) = EnsureBucket (en_now env) bucket (rq_owner r) (sv_db s);
               idem = header_Get (rq_header r) ''X-Idempotency-Key''
           in idem \<noteq> [] \<and>
              (case GetIdempotencyTx bucketID key idem d0 of Inl e \<Rightarrow> False | Inr x \<Rightarrow> True)))"

text \<open>
  A run of \<open>PUT\<close> requests, each with its clock and its generated ids: the responses
  with the server after each request, and the server after the run.
\<close>

fun run_puts :: "(Env \<times> Request) list \<Rightarrow> Server \<Rightarrow> (Response \<times> Server) list" where
  "run_puts [] s = []"
| "run_puts ((env, r) # rest) s =
     (let (resp, s1) = handlePut env r s in (resp, s1) # run_puts rest s1)"


text \<open>An upload with an idempotency key, and a replay of it with another body.\<close>

definition env_first :: Env where
  "env_first = \<lparr>en_now = 0, en_blob_id = ''b1'', en_version_id = ''v1'',
                 en_sha256_hex = stand_in_sha256_hex\<rparr>"

definition env_second :: Env where
  "env_second = \<lparr>en_now = day, en_blob_id = ''b2'', en_version_id = ''v2'',
                  en_sha256_hex = stand_in_sha256_hex\<rparr>"

definition put_A_t1 :: Request where
  "put_A_t1 = request ''PUT'' ''/photos/cat.jpg'' [] [(''X-Idempotency-Key'', ''t1'')] ''A''"

definition put_B_t1 :: Request where
  "put_B_t1 = request ''PUT'' ''/photos/cat.jpg'' [] [(''X-Idempotency-Key'', ''t1'')] ''B''"





section \<open>Properties\<close>

subsection \<open>Head consistency and the expire-noncurrent-by-age action\<close>

text \<open>
  Claim C1 (head consistency): after every completed operation the head of each object
  row names an existing version of its key; in particular the expire-noncurrent-by-age
  action never leaves a head pointing at a deleted version.

  \<open>ListNoncurrentByAge\<close> does not exclude the head, unlike the sibling query
  \<open>ListNoncurrentKeepNewest\<close>, and \<open>deleteVersionsTx\<close> does not rewire it, unlike
  \<open>handleDelete\<close>. The run: one upload at time 0, the policy of the README
  (noncurrent versions expire after 30 days), one pass on day 31. Before the pass the
  heads are consistent. The pass deletes the only version, which is the head, and its
  blob; the object row still names \<open>v1\<close>, which no longer exists. This holds for every
  hash function and every id generator.
\<close>

theorem expire_noncurrent_by_age_deletes_head:
  "head_consistent (sv_db (srv_upload_and_policy sha)) \<and>
   (case onePass (31 * day) gen 50 (srv_upload_and_policy sha) of
      Panicked \<Rightarrow> False
    | Returned st \<Rightarrow>
        object_versions (sv_db (ps_server st)) = [] \<and>
        map ob_head_version_id (objects (sv_db (ps_server st))) = [''v1''] \<and>
        GetHeadVersionTx 1 ''cat.jpg'' (sv_db (ps_server st)) = Inl ErrNotFound \<and>
        \<not> head_consistent (sv_db (ps_server st)))"
  by code_simp

subsection \<open>DELETE bucket\<close>

text \<open>No input makes \<open>handleDeleteBucket\<close> answer 204.\<close>

lemma handleDeleteBucket_never_204:
  "rs_status (fst (handleDeleteBucket r bucket s)) \<noteq> 204"
  by (simp add: handleDeleteBucket_def writeS3Error_def split: sum.splits)

text \<open>
  Claim C2 (bucket delete): \<open>DELETE /{bucket}\<close> on an existing bucket answers 204 if and
  only if the bucket has no object row and no version row; 409 \<open>BucketNotEmpty\<close> when
  it is not empty, 404 \<open>NoSuchBucket\<close> when it is missing.

  The run: the caller's bucket \<open>photos\<close>, empty. The transaction succeeds and removes
  the bucket row, and the handler answers 500 \<open>InternalError\<close>.
\<close>

theorem handleDeleteBucket_empty_bucket_answers_500:
  "handleDeleteBucket (request ''DELETE'' ''/photos'' [] [] []) ''photos'' srv_bucket_only =
     (writeS3Error [] 500 ''InternalError'' ''db error'' ''/photos'',
      \<lparr>sv_db = db_empty\<lparr>seq_buckets := 1\<rparr>, sv_files = []\<rparr>)"
  by code_simp

subsection \<open>The cut of the expire-current action\<close>

text \<open>
  Claim C3 (expire current): a rule with \<open>expire_current_after_days = C\<close> selects exactly
  the object heads older than \<open>now - C\<close> days and gives each a new delete-marker as head.

  The run: the upload of time 0 under the rule with \<open>C = 30\<close> and a purge threshold of
  1 day, one pass on day 2. No head is older than \<open>now - 30\<close> days, so the claim's
  selection is empty. The pass computes its cut from the purge threshold, selects the
  two-day-old object, inserts the delete-marker \<open>dm1\<close> and makes it the head.
\<close>

theorem expire_current_uses_purge_threshold:
  "ListHeadsOlderThan 1 [] (cut_time (2 * day) 30) 50 (sv_db (srv_upload_and_expiry sha)) = [] \<and>
   (case onePass (2 * day) (\<lambda>i. ''dm1'') 50 (srv_upload_and_expiry sha) of
      Panicked \<Rightarrow> False
    | Returned st \<Rightarrow>
        ps_totalChanged st = 1 \<and>
        map ov_version_id (object_versions (sv_db (ps_server st))) = [''v1'', ''dm1''] \<and>
        map ov_is_delete (object_versions (sv_db (ps_server st))) = [False, True] \<and>
        map ob_head_version_id (objects (sv_db (ps_server st))) = [''dm1''])"
  by code_simp

subsection \<open>A signature that does not match\<close>

lemma hex_digit_not_z: "n < 16 \<Longrightarrow> hex_digit n \<noteq> CHR ''z''"
proof
  assume n: "n < 16" and "hex_digit n = CHR ''z''"
  then have "(of_char (hex_digit n) :: nat) = 122" by simp
  with n show False by (simp add: hex_digit_def split: if_splits)
qed

lemma z_notin_hex: "CHR ''z'' \<notin> set (hex_EncodeToString bs)"
proof -
  have a: "\<And>b. (of_char b :: nat) div 16 < 16"
  proof -
    fix b :: char
    have "(of_char b :: nat) < 256" by (rule nat_of_char_less_256)
    then show "(of_char b :: nat) div 16 < 16" by arith
  qed
  show ?thesis
    unfolding hex_EncodeToString_def
    using a hex_digit_not_z by (auto simp: eq_commute[of "CHR ''z''"])
qed

lemma hex_ne_zz: "hex_EncodeToString bs \<noteq> ''zz''"
proof
  assume "hex_EncodeToString bs = ''zz''"
  then have "CHR ''z'' \<in> set (hex_EncodeToString bs)" by simp
  with z_notin_hex show False by blast
qed

lemma sig_request_authorization:
  "header_Get (rq_header sig_request) ''Authorization'' =
     ''AWS4-HMAC-SHA256 Credential=AKIDEXAMPLE/20260101/us-east-1/s3/aws4_request, SignedHeaders=host;x-amz-date, Signature=zz''"
  by code_simp

lemma sig_request_algorithm:
  "HasPrefix ''AWS4-HMAC-SHA256 Credential=AKIDEXAMPLE/20260101/us-east-1/s3/aws4_request, SignedHeaders=host;x-amz-date, Signature=zz''
     ''AWS4-HMAC-SHA256 ''"
  by code_simp

lemma sig_request_params:
  "parseAuthzParams (TrimPrefix ''AWS4-HMAC-SHA256 Credential=AKIDEXAMPLE/20260101/us-east-1/s3/aws4_request, SignedHeaders=host;x-amz-date, Signature=zz''
       ''AWS4-HMAC-SHA256 '') =
     [(''Signature'', ''zz''), (''SignedHeaders'', ''host;x-amz-date''),
      (''Credential'', ''AKIDEXAMPLE/20260101/us-east-1/s3/aws4_request'')]"
  by code_simp

lemma sig_request_scope:
  "Split ''AKIDEXAMPLE/20260101/us-east-1/s3/aws4_request'' CHR ''/'' =
     [''AKIDEXAMPLE'', ''20260101'', ''us-east-1'', ''s3'', ''aws4_request'']"
  by code_simp

lemma sig_request_date: "header_Get (rq_header sig_request) ''x-amz-date'' = ''20260101T000000Z''"
  by code_simp

lemma sig_request_payload: "header_Get (rq_header sig_request) ''x-amz-content-sha256'' = []"
  by code_simp

lemma sig_request_secret:
  "credProvider_LookupSecret (sv_db srv_with_user) ''AKIDEXAMPLE'' = Inr ''secret''"
  by code_simp

lemma ToLower_zz: "ToLower ''zz'' = ''zz''"
  by code_simp

lemma VerifySigV4_sig_request:
  "VerifySigV4 (prims sha hmac) (credProvider_LookupSecret (sv_db srv_with_user))
     middleware_options sig_request = (None, None)"
  by (simp add: VerifySigV4_def Let_def sig_request_authorization sig_request_algorithm
      sig_request_params sig_request_scope sig_request_date sig_request_payload
      sig_request_secret ToLower_zz param_def prims_def middleware_options_def
      hmacSHA256Hex_def hex_ne_zz)

text \<open>
  Claim C4 (signature mismatch): when the computed signature differs from the supplied
  one, or the secret lookup fails, \<open>VerifySigV4\<close> returns a non-nil error and the request
  is answered with 403; it never returns \<open>(nil, nil)\<close>.

  The run: the request \<open>sig_request\<close> of a known user, with a signature that no HMAC
  produces. Whatever the hash functions are, \<open>VerifySigV4\<close> returns \<open>(nil, nil)\<close>; the
  middleware sees no error, dereferences the nil result and panics, and \<open>WithRecover\<close>
  answers 500.
\<close>

theorem VerifySigV4_mismatch_returns_nil_nil:
  "VerifySigV4 (prims sha hmac) (credProvider_LookupSecret (sv_db srv_with_user))
     middleware_options sig_request = (None, None) \<and>
   AuthMiddleware False (prims sha hmac) srv_with_user sig_request = Panicked \<and>
   rs_status (WithRecover (AuthMiddleware False (prims sha hmac) srv_with_user sig_request) answer) = 500"
  using VerifySigV4_sig_request [of sha hmac]
  by (simp add: AuthMiddleware_def middleware_options_def WithRecover_def)

text \<open>A failed secret lookup, once reached, is an error of its own and is answered 403.\<close>

lemma AuthMiddleware_error_is_403:
  "VerifySigV4 pm (credProvider_LookupSecret (sv_db s)) middleware_options r = (res, Some e) \<Longrightarrow>
   \<not> (allowNoSign \<and> header_Get (rq_header r) ''Authorization'' = []) \<Longrightarrow>
   AuthMiddleware allowNoSign pm s r =
     Returned (Reply (writeS3Error [] 403 ''SignatureDoesNotMatch'' (auth_error_text e) (rq_path r)))"
  by (cases res) (auto simp: AuthMiddleware_def middleware_options_def)

text \<open>The same run with the stand-ins in the place of SHA-256 and HMAC.\<close>

theorem VerifySigV4_mismatch_returns_nil_nil_witness:
  "VerifySigV4 (prims stand_in_sha256_hex stand_in_hmac)
     (credProvider_LookupSecret (sv_db srv_with_user)) middleware_options sig_request = (None, None) \<and>
   AuthMiddleware False (prims stand_in_sha256_hex stand_in_hmac) srv_with_user sig_request = Panicked \<and>
   rs_status (WithRecover (AuthMiddleware False (prims stand_in_sha256_hex stand_in_hmac)
                             srv_with_user sig_request)
                (\<lambda>d. \<lparr>rs_status = 200, rs_header = [], rs_body = NoBody\<rparr>)) = 500"
  by (rule VerifySigV4_mismatch_returns_nil_nil)

subsection \<open>The nil purge threshold\<close>

lemma rule_expire_current_Panicked:
  "rule_expire_current now gen batch rule st = Panicked \<longleftrightarrow> expire_current_without_purge rule"
  by (simp add: rule_expire_current_def expire_current_without_purge_def Let_def
      split: option.splits prod.splits)

lemma apply_rule_Panicked:
  "apply_rule now gen batch rule st = Panicked \<longleftrightarrow> expire_current_without_purge rule"
  by (simp add: apply_rule_def rule_expire_current_Panicked)

lemma apply_rules_Panicked:
  "apply_rules now gen batch rules st = Panicked \<longleftrightarrow> list_ex expire_current_without_purge rules"
proof (induction rules arbitrary: st)
  case Nil
  show ?case by simp
next
  case (Cons rule rest)
  show ?case
  proof (cases "apply_rule now gen batch rule st")
    case Panicked
    then show ?thesis using apply_rule_Panicked[of now gen batch rule st] by simp
  next
    case (Returned st')
    then have "\<not> expire_current_without_purge rule"
      using apply_rule_Panicked[of now gen batch rule st] by simp
    then show ?thesis using Returned Cons.IH[of st'] by simp
  qed
qed

text \<open>
  Claim C9 as stated: every enabled rule with \<open>expire_current_after_days\<close> set and the
  purge threshold nil makes the pass panic. The guard of the action also asks for a
  threshold that is not negative: under the policy \<open>Expiration Days = -1\<close>, stored as
  the decoder read it, the rule is enabled, its threshold is set, its purge threshold is
  nil, and the pass returns.
\<close>

theorem negative_expiry_does_not_panic:
  "map lr_enabled (lifecycle_rules (sv_db srv_negative_expiry)) = [True] \<and>
   map lr_ExpireCurrentAfterDays (lifecycle_rules (sv_db srv_negative_expiry)) = [Some (- 1)] \<and>
   map lr_PurgeDeleteMarkersAfterDays (lifecycle_rules (sv_db srv_negative_expiry)) = [None] \<and>
   onePass (31 * day) stand_in_ids 50 srv_negative_expiry \<noteq> Panicked"
  by code_simp

text \<open>
  Claim C9, amended: the pass panics exactly when some enabled rule has
  \<open>expire_current_after_days\<close> set to a value that is not negative and the purge threshold
  nil. So every such rule makes the worker panic, and the expire-current action of an
  enabled rule runs to its end only where the purge threshold is set as well.
\<close>

theorem onePass_panics_iff:
  "onePass now gen batch s = Panicked \<longleftrightarrow>
     list_ex (\<lambda>rule. lr_enabled rule \<and> expire_current_without_purge rule)
       (lifecycle_rules (sv_db s))"
  by (simp add: onePass_def apply_rules_Panicked ListEnabledLifecycleRules_def list_ex_iff) blast

text \<open>
  No rule stored through \<open>PUT /{bucket}?lifecycle\<close> has a purge threshold, so an enabled
  \<open>Expiration\<close> rule with \<open>Days \<ge> 0\<close> always ends the worker.
\<close>

lemma ruleFromXML_no_purge: "lr_PurgeDeleteMarkersAfterDays (ruleFromXML bucketID x) = None"
  by (simp add: ruleFromXML_def)

subsection \<open>Purging delete-markers\<close>

lemma find_Some_filter: "find P xs = Some x \<Longrightarrow> 0 < length (filter P xs)"
  by (induction xs) (auto split: if_splits)

lemma GetHeadVersionTx_LockObjectForUpdate:
  "GetHeadVersionTx bucketID key d = Inr h \<Longrightarrow> LockObjectForUpdate now bucketID key d = Inr d"
  by (auto simp: GetHeadVersionTx_def LockObjectForUpdate_def split: option.splits
      dest: find_Some_filter)

text \<open>
  Claim C8 (no resurrection): the purge action never deletes a delete-marker that is
  the current head of its key. For every candidate \<open>dm\<close> and every state \<open>s\<close> in which
  its transaction runs: if the head version of the candidate's key is the candidate,
  the transaction leaves the whole server state as it was, deletes no row and does not
  count the candidate.
\<close>

theorem purge_skips_current_head:
  assumes "GetHeadVersionTx (ov_bucket_id dm) (ov_key dm) (sv_db s) = Inr head"
      and "ov_version_id head = ov_version_id dm"
    shows "purgeDeleteMarker_tx now dm (s, changed) = (s, changed)"
  using assms GetHeadVersionTx_LockObjectForUpdate [OF assms(1), of now]
  by (simp add: purgeDeleteMarker_tx_def)

text \<open>
  The soft-deleted upload, 40 days on: the marker is the only candidate of the listing
  query, it is the head, and its transaction changes nothing.
\<close>

lemma srv_soft_deleted_head:
  "GetHeadVersionTx (ov_bucket_id marker_dm1) (ov_key marker_dm1) (sv_db srv_soft_deleted) =
     Inr marker_dm1"
  by code_simp

theorem purge_skips_current_head_witness:
  "ListDeleteMarkersForPurge 1 [] (cut_time (41 * day) 30) 50 (sv_db srv_soft_deleted) = [marker_dm1] \<and>
   GetHeadVersionTx (ov_bucket_id marker_dm1) (ov_key marker_dm1) (sv_db srv_soft_deleted) =
     Inr marker_dm1 \<and>
   purgeDeleteMarker_tx (41 * day) marker_dm1 (srv_soft_deleted, 0) = (srv_soft_deleted, 0)"
proof -
  have l: "ListDeleteMarkersForPurge 1 [] (cut_time (41 * day) 30) 50 (sv_db srv_soft_deleted) =
             [marker_dm1]"
    by code_simp
  show ?thesis
    using l srv_soft_deleted_head
      purge_skips_current_head [OF srv_soft_deleted_head refl, of "41 * day" 0]
    by simp
qed

subsection \<open>Lookup by version id\<close>

lemma header_Get_Set_same: "header_Get (header_Set name v h) name = v"
proof -
  have "find (\<lambda>p. ToLower (fst p) = ToLower name)
          (filter (\<lambda>p. ToLower (fst p) \<noteq> ToLower name) h @ [(name, v)]) = Some (name, v)"
    by (induction h) auto
  then show ?thesis by (simp add: header_Get_def header_Set_def)
qed

lemma header_Get_Set_other:
  "ToLower name' \<noteq> ToLower name \<Longrightarrow> header_Get (header_Set name' v h) name = header_Get h name"
proof -
  assume ne: "ToLower name' \<noteq> ToLower name"
  have "find (\<lambda>p. ToLower (fst p) = ToLower name)
          (filter (\<lambda>p. ToLower (fst p) \<noteq> ToLower name') h @ [(name', v)]) =
        find (\<lambda>p. ToLower (fst p) = ToLower name) h"
    using ne by (induction h) auto
  then show ?thesis by (simp add: header_Get_def header_Set_def)
qed

lemma handleGet_range_none: "handleGet_range [] tot = RangeOK 0 (- 1) 200 None"
  by (simp add: handleGet_range_def HasPrefix_def)

lemma handleGet_predicates_none:
  "header_Get (rq_header r) ''If-Match'' = [] \<Longrightarrow> header_Get (rq_header r) ''If-None-Match'' = [] \<Longrightarrow>
   handleGet_predicates r ver =
     Inr (case ov_etag ver of None \<Rightarrow> [] | Some etag \<Rightarrow> header_Set ''ETag'' etag [])"
  by (simp add: handleGet_predicates_def Let_def split: option.splits)

lemma version_id_header_differs:
  "ToLower ''Content-Length'' \<noteq> ToLower ''x-amz-version-id''"
  "ToLower ''Accept-Ranges'' \<noteq> ToLower ''x-amz-version-id''"
  "ToLower ''Content-Type'' \<noteq> ToLower ''x-amz-version-id''"
  by code_simp+

lemma handleGet_by_versionId:
  assumes path: "parseBucketKey (rq_path r) = Inr (bucket, key)"
      and bucket: "BucketIDByName bucket (rq_owner r) (sv_db s) = Inr bucketID"
      and vid: "query_Get (rq_query r) ''versionId'' = versionID" "versionID \<noteq> []"
      and ver: "GetVersionTx versionID (sv_db s) = Inr ver"
      and live: "\<not> ov_is_delete ver" "ov_blob_id ver = Some blobID"
      and blob: "GetBlob blobID (sv_db s) = Inr b" "map_of (sv_files s) blobID = Some bytes"
      and plain: "header_Get (rq_header r) ''If-Match'' = []"
                 "header_Get (rq_header r) ''If-None-Match'' = []"
                 "header_Get (rq_header r) ''Range'' = []"
    shows "\<exists>resp. handleGet r s = Returned resp \<and> rs_status resp = 200 \<and>
             rs_body resp = Bytes bytes \<and>
             header_Get (rs_header resp) ''x-amz-version-id'' = ov_version_id ver"
  using assms
  by (simp add: handleGet_def Let_def handleGet_range_none handleGet_predicates_none
      storage_ReadAt_def header_Get_Set_same header_Get_Set_other version_id_header_differs)

lemma GetVersionTx_id: "GetVersionTx versionID d = Inr ver \<Longrightarrow> ov_version_id ver = versionID"
  by (auto simp: GetVersionTx_def find_Some_iff split: option.splits)

lemma LockObjectForUpdate_versions:
  "LockObjectForUpdate now bucketID key d = Inr d1 \<Longrightarrow> object_versions d1 = object_versions d"
  by (auto simp: LockObjectForUpdate_def split: if_splits)

lemma LockObjectForUpdate_total: "\<exists>d1. LockObjectForUpdate now bucketID key d = Inr d1"
  by (simp add: LockObjectForUpdate_def)

lemma gc_blob_of_versions: "object_versions (fst (gc_blob_of blobID (d, fs))) = object_versions d"
  by (simp add: gc_blob_of_def DeleteBlobRecordTx_def split: option.splits)

lemma SetHeadVersionTx_versions:
  "object_versions (ignore_err d (SetHeadVersionTx b k v d)) = object_versions d"
  by (simp add: SetHeadVersionTx_def ignore_err_def)

lemma CreateDeleteMarkerTx_versions:
  "set (object_versions (ignore_err d (CreateDeleteMarkerTx now b k v d))) \<subseteq>
     set (object_versions d) \<union>
     {\<lparr>ov_version_id = v, ov_bucket_id = b, ov_key = k, ov_blob_id = None, ov_size = None,
       ov_etag = None, ov_content_type = None, ov_is_delete = True, ov_created_at = now\<rparr>}"
  by (auto simp: CreateDeleteMarkerTx_def ignore_err_def)

text \<open>
  The versioned branch of the transaction of \<open>handleDelete\<close>: once the version id is
  found, the result is 204, and every row left is an old row with another id or a row
  of the requested key.
\<close>

lemma deleteTx_versioned:
  assumes vid: "versionID \<noteq> []"
      and ver: "GetVersionTx versionID d = Inr ver"
    shows "\<exists>d' fs'. deleteTx env bucketID key versionID fs d =
              (Inr (d', \<lparr>dr_returnVersion = versionID, dr_status = 204\<rparr>), fs') \<and>
            (\<forall>v \<in> set (object_versions d').
               (v \<in> set (object_versions d) \<and> ov_version_id v \<noteq> versionID) \<or>
               (ov_bucket_id v = bucketID \<and> ov_key v = key))"
proof -
  obtain d1 where lock: "LockObjectForUpdate (en_now env) bucketID key d = Inr d1"
    using LockObjectForUpdate_total by blast
  have v1: "object_versions d1 = object_versions d"
    using lock by (rule LockObjectForUpdate_versions)
  have ver1: "GetVersionTx versionID d1 = Inr ver"
    using ver v1 by (simp add: GetVersionTx_def)
  define d2 where
    "d2 = d1\<lparr>object_versions := filter (\<lambda>v. ov_version_id v \<noteq> versionID) (object_versions d1)\<rparr>"
  have del: "DeleteVersionTx versionID d1 = Inr d2"
    using vid by (simp add: DeleteVersionTx_def d2_def)
  define rehead where
    "rehead = (case GetHeadVersionTx bucketID key d2 of
                 Inl e \<Rightarrow> True
               | Inr h \<Rightarrow> ov_version_id h = versionID)"
  define d3 where
    "d3 = (if rehead then
             (case GetPrevVersionTx bucketID key versionID d2 of
                Inr prev \<Rightarrow> ignore_err d2 (SetHeadVersionTx bucketID key (ov_version_id prev) d2)
              | Inl e \<Rightarrow>
                  (let dm = en_version_id env;
                       d2a = ignore_err d2 (CreateDeleteMarkerTx (en_now env) bucketID key dm d2)
                   in ignore_err d2a (SetHeadVersionTx bucketID key dm d2a)))
           else d2)"
  have v2: "set (object_versions d2) = {v \<in> set (object_versions d). ov_version_id v \<noteq> versionID}"
    by (auto simp: d2_def v1)
  have v3: "\<forall>v \<in> set (object_versions d3).
              v \<in> set (object_versions d2) \<or> (ov_bucket_id v = bucketID \<and> ov_key v = key)"
    using CreateDeleteMarkerTx_versions [of d2 "en_now env" bucketID key "en_version_id env"]
    by (auto simp: d3_def SetHeadVersionTx_versions Let_def split: sum.splits)
  have res: "deleteTx env bucketID key versionID fs d =
          (Inr (fst (gc_blob_of (ov_blob_id ver) (d3, fs)),
                \<lparr>dr_returnVersion = versionID, dr_status = 204\<rparr>),
           snd (gc_blob_of (ov_blob_id ver) (d3, fs)))"
    using vid lock ver1 del
    by (simp add: deleteTx_def Let_def d3_def rehead_def split: prod.splits)
  show ?thesis
    using res v3 v2 gc_blob_of_versions [of "ov_blob_id ver" d3 fs] by auto
qed

lemma handleDelete_by_versionId:
  assumes path: "parseBucketKey (rq_path r) = Inr (bucket, key)"
      and bucket: "BucketIDByName bucket (rq_owner r) (sv_db s) = Inr bucketID"
      and vid: "query_Get (rq_query r) ''versionId'' = versionID" "versionID \<noteq> []"
      and ver: "GetVersionTx versionID (sv_db s) = Inr ver"
      and other: "ov_bucket_id ver \<noteq> bucketID \<or> ov_key ver \<noteq> key"
    shows "rs_status (fst (handleDelete env r s)) = 204 \<and>
           ver \<notin> set (object_versions (sv_db (snd (handleDelete env r s))))"
proof -
  obtain d' fs' where
    tx: "deleteTx env bucketID key versionID (sv_files s) (sv_db s) =
           (Inr (d', \<lparr>dr_returnVersion = versionID, dr_status = 204\<rparr>), fs')"
    and left: "\<forall>v \<in> set (object_versions d').
               (v \<in> set (object_versions (sv_db s)) \<and> ov_version_id v \<noteq> versionID) \<or>
               (ov_bucket_id v = bucketID \<and> ov_key v = key)"
    using deleteTx_versioned [OF vid(2) ver] by blast
  have hd: "handleDelete env r s =
          (\<lparr>rs_status = 204, rs_header = header_Set ''x-amz-version-id'' versionID [],
            rs_body = NoBody\<rparr>,
           \<lparr>sv_db = d', sv_files = fs'\<rparr>)"
    using path bucket vid tx by (simp add: handleDelete_def Let_def)
  have "ver \<notin> set (object_versions d')"
    using left other GetVersionTx_id [OF ver] by blast
  then show ?thesis using hd by simp
qed

text \<open>
  Claim C10 (no ownership check on \<open>versionId\<close>): \<open>GET\<close> and \<open>DELETE\<close> with a \<open>versionId\<close>
  look the version up by its id alone. Let the request name a bucket of the caller and
  a key, and let \<open>versionId\<close> name an existing version \<open>ver\<close> of another bucket or key.
  Then \<open>DELETE\<close> answers 204 and the row \<open>ver\<close> is gone; and \<open>GET\<close> (no conditional or
  range header), when \<open>ver\<close> is a data version whose blob is stored, answers 200 with
  the bytes of that other object and its version id.
\<close>

theorem versionId_lookup_ignores_bucket_and_key:
  assumes "parseBucketKey (rq_path r) = Inr (bucket, key)"
      and "BucketIDByName bucket (rq_owner r) (sv_db s) = Inr bucketID"
      and "query_Get (rq_query r) ''versionId'' = versionID" and "versionID \<noteq> []"
      and "GetVersionTx versionID (sv_db s) = Inr ver"
      and "ov_bucket_id ver \<noteq> bucketID \<or> ov_key ver \<noteq> key"
    shows "rs_status (fst (handleDelete env r s)) = 204 \<and>
           ver \<notin> set (object_versions (sv_db (snd (handleDelete env r s)))) \<and>
           (\<not> ov_is_delete ver \<and> ov_blob_id ver = Some blobID \<and>
            GetBlob blobID (sv_db s) = Inr b \<and> map_of (sv_files s) blobID = Some bytes \<and>
            header_Get (rq_header r) ''If-Match'' = [] \<and>
            header_Get (rq_header r) ''If-None-Match'' = [] \<and>
            header_Get (rq_header r) ''Range'' = [] \<longrightarrow>
            (\<exists>resp. handleGet r s = Returned resp \<and> rs_status resp = 200 \<and>
               rs_body resp = Bytes bytes \<and>
               header_Get (rs_header resp) ''x-amz-version-id'' = ov_version_id ver))"
  using handleDelete_by_versionId [OF assms, of env] handleGet_by_versionId [OF assms(1-5)]
  by blast

text \<open>
  The two uploads: \<open>GET /photos/cat.jpg?versionId=v2\<close> serves \<open>woof\<close>, the body of
  \<open>dog.jpg\<close>, and \<open>DELETE /photos/cat.jpg?versionId=v2\<close> deletes the version of \<open>dog.jpg\<close>.
\<close>

lemma get_cat_v2_facts:
  "parseBucketKey (rq_path get_cat_v2) = Inr (''photos'', ''cat.jpg'')"
  "BucketIDByName ''photos'' (rq_owner get_cat_v2) (sv_db srv_two_uploads) = Inr 1"
  "query_Get (rq_query get_cat_v2) ''versionId'' = ''v2''"
  "GetVersionTx ''v2'' (sv_db srv_two_uploads) = Inr version_v2"
  "ov_bucket_id version_v2 \<noteq> 1 \<or> ov_key version_v2 \<noteq> ''cat.jpg''"
  by code_simp+

lemma get_cat_v2_blob:
  "\<not> ov_is_delete version_v2 \<and> ov_blob_id version_v2 = Some ''b2'' \<and>
   map_of (sv_files srv_two_uploads) ''b2'' = Some ''woof'' \<and>
   header_Get (rq_header get_cat_v2) ''If-Match'' = [] \<and>
   header_Get (rq_header get_cat_v2) ''If-None-Match'' = [] \<and>
   header_Get (rq_header get_cat_v2) ''Range'' = []"
  by code_simp

lemma get_cat_v2_record:
  "GetBlob ''b2'' (sv_db srv_two_uploads) =
     Inr \<lparr>bl_id = ''b2'', bl_storage_node = ''local'', bl_path = [], bl_size = 4,
          bl_checksum = ''sha256:'' @ stand_in_sha256_hex ''woof'', bl_state = ''ready'',
          bl_created_at = day\<rparr>"
  by code_simp

theorem versionId_lookup_ignores_bucket_and_key_witness:
  "rs_status (fst (handleDelete env_day2 get_cat_v2 srv_two_uploads)) = 204 \<and>
   version_v2 \<notin> set (object_versions (sv_db (snd (handleDelete env_day2 get_cat_v2 srv_two_uploads)))) \<and>
   (\<exists>resp. handleGet get_cat_v2 srv_two_uploads = Returned resp \<and> rs_status resp = 200 \<and>
      rs_body resp = Bytes ''woof'' \<and>
      header_Get (rs_header resp) ''x-amz-version-id'' = ''v2'')"
proof -
  have ne: "''v2'' \<noteq> []" by simp
  have id: "ov_version_id version_v2 = ''v2''" by (simp add: version_v2_def)
  show ?thesis
    using versionId_lookup_ignores_bucket_and_key
            [OF get_cat_v2_facts(1-3) ne get_cat_v2_facts(4,5), of env_day2 "''b2''" _ "''woof''"]
          get_cat_v2_blob get_cat_v2_record id
    by simp
qed

subsection \<open>Decimal numbers\<close>











lemma HasPrefix_append: "HasPrefix (p @ s) p"
  by (simp add: HasPrefix_def)

lemma TrimPrefix_append: "TrimPrefix (p @ s) p = s"
  by (simp add: TrimPrefix_def HasPrefix_def)

subsection \<open>Byte ranges\<close>

lemma content_range_nonempty [simp]: "content_range a b t \<noteq> []"
  by (simp add: content_range_def)


lemma split_Suffix: "IndexByte (''-'' @ z) CHR ''-'' = Some 0"
  by simp



















text \<open>The same three answers in full, with \<open>Content-Range: bytes 1-3/6\<close>.\<close>

lemma range_scenario:
  "handleGet_range ''bytes=1-3'' 6 = RangeOK 1 3 206 (Some ''bytes 1-3/6'')"
  "handleGet_range ''bytes=-2'' 6 = RangeOK 4 2 206 (Some ''bytes 4-5/6'')"
  "handleGet_range ''bytes=10-20'' 6 = RangeNotSatisfiable"
  by code_simp+

subsection \<open>Uploads: what each step leaves unchanged\<close>

lemma EnsureBucket_frame:
  assumes "EnsureBucket now name owner d = (bid, d0)"
  shows "objects d0 = objects d" "object_versions d0 = object_versions d" "blobs d0 = blobs d"
        "idempotency_keys d0 = idempotency_keys d" "seq_objects d0 = seq_objects d"
  using assms by (auto simp: EnsureBucket_def Let_def split: option.splits if_splits)

lemma find_map_preserving:
  "(\<And>x. P (f x) = P x) \<Longrightarrow> find P (map f xs) = map_option f (find P xs)"
  by (induction xs) auto

lemma find_append_fresh: "find P xs = None \<Longrightarrow> find P (xs @ [y]) = (if P y then Some y else None)"
  by (induction xs) (auto split: if_splits)


lemma EnsureBucket_found:
  assumes "EnsureBucket now name owner d = (bid, d0)"
  shows "\<exists>b. find (\<lambda>b. bk_name b = name) (buckets d0) = Some b \<and> bk_id b = bid"
proof (cases "find (\<lambda>b. bk_name b = name) (buckets d)")
  case None
  then show ?thesis
    using assms
    by (auto simp: EnsureBucket_def Let_def find_append_fresh find_map_preserving split: if_splits)
next
  case (Some b)
  then show ?thesis
    using assms
    by (auto simp: EnsureBucket_def Let_def find_map_preserving split: if_splits)
qed

lemma EnsureBucket_again:
  assumes "find (\<lambda>b. bk_name b = name) (buckets d) = Some b"
  shows "\<exists>d0. EnsureBucket now name owner d = (bk_id b, d0) \<and>
           (\<exists>b'. find (\<lambda>b. bk_name b = name) (buckets d0) = Some b' \<and> bk_id b' = bk_id b)"
  using assms
  by (auto simp: EnsureBucket_def Let_def find_map_preserving split: if_splits)


lemma EnsureBucket_owned:
  assumes "EnsureBucket now name owner d = (bid, d0)" and "owner \<noteq> 0"
  shows "\<exists>b. find (\<lambda>b. bk_name b = name) (buckets d0) = Some b \<and> bk_id b = bid \<and>
             bk_owner_id b \<noteq> 0"
proof (cases "find (\<lambda>b. bk_name b = name) (buckets d)")
  case None
  then show ?thesis
    using assms
    by (auto simp: EnsureBucket_def Let_def find_append_fresh find_map_preserving split: if_splits)
next
  case (Some b)
  then show ?thesis
    using assms
    by (auto simp: EnsureBucket_def Let_def find_map_preserving split: if_splits)
qed

lemma EnsureBucket_noop:
  assumes "find (\<lambda>b. bk_name b = name) (buckets d) = Some b" and "bk_owner_id b \<noteq> 0"
  shows "EnsureBucket now name owner d = (bk_id b, d)"
  using assms by (simp add: EnsureBucket_def)

lemma LockObjectForUpdate_frame:
  assumes "LockObjectForUpdate now bid key d = Inr d1"
  shows "buckets d1 = buckets d" "blobs d1 = blobs d" "idempotency_keys d1 = idempotency_keys d"
        "object_versions d1 = object_versions d"
        "list_ex (\<lambda>x. ob_bucket_id x = bid \<and> ob_key x = key) (objects d1)"
  using assms
  by (auto simp: LockObjectForUpdate_def list_ex_iff filter_empty_conv split: if_splits)

lemma LockObjectForUpdate_present:
  "list_ex (\<lambda>x. ob_bucket_id x = bid \<and> ob_key x = key) (objects d) \<Longrightarrow>
   LockObjectForUpdate now bid key d = Inr d"
  by (auto simp: LockObjectForUpdate_def list_ex_iff filter_empty_conv)

lemma GetIdempotencyTx_cong:
  "idempotency_keys d' = idempotency_keys d \<Longrightarrow> GetIdempotencyTx bid key tok d' = GetIdempotencyTx bid key tok d"
  by (simp add: GetIdempotencyTx_def)

lemma find_None_list_ex: "find P xs = None \<longleftrightarrow> \<not> list_ex P xs"
  by (auto simp: find_None_iff list_ex_iff)

lemma list_ex_map_keep: "(\<And>x. P x \<Longrightarrow> P (f x)) \<Longrightarrow> list_ex P xs \<Longrightarrow> list_ex P (map f xs)"
  by (induction xs) auto

lemma UpsertObjectTx_frame:
  assumes "UpsertObjectTx now bid key ub us etag ctype v d = Inr d2"
  shows "object_versions d2 = object_versions d" "blobs d2 = blobs d" "buckets d2 = buckets d"
        "idempotency_keys d2 = idempotency_keys d"
        "list_ex (\<lambda>x. ob_bucket_id x = bid \<and> ob_key x = key) (objects d2)"
proof -
  show "object_versions d2 = object_versions d" "blobs d2 = blobs d" "buckets d2 = buckets d"
        "idempotency_keys d2 = idempotency_keys d"
    using assms by (auto simp: UpsertObjectTx_def split: if_splits)
  show "list_ex (\<lambda>x. ob_bucket_id x = bid \<and> ob_key x = key) (objects d2)"
  proof (cases "list_ex (\<lambda>x. ob_bucket_id x = bid \<and> ob_key x = key) (objects d)")
    case True
    then show ?thesis
      using assms by (auto simp: UpsertObjectTx_def intro!: list_ex_map_keep)
  next
    case False
    then show ?thesis using assms by (auto simp: UpsertObjectTx_def)
  qed
qed

lemma SetHeadVersionTx_frame:
  assumes "SetHeadVersionTx bid key v d = Inr d3"
  shows "object_versions d3 = object_versions d" "blobs d3 = blobs d" "buckets d3 = buckets d"
        "idempotency_keys d3 = idempotency_keys d"
        "list_ex P (objects d) \<Longrightarrow> (\<And>x. P x \<Longrightarrow> P (x\<lparr>ob_head_version_id := v\<rparr>)) \<Longrightarrow> list_ex P (objects d3)"
  using assms by (auto simp: SetHeadVersionTx_def intro!: list_ex_map_keep)

lemma UpsertObjectTx_total: "\<exists>d2. UpsertObjectTx now bid key ub us etag ctype v d = Inr d2"
  by (simp add: UpsertObjectTx_def)

lemma putTx_meta_Inr:
  assumes "putTx_meta env bid key idem etag ctype ub us d = (Inr d4, res)"
  shows "object_versions d4 = object_versions d @ [new_version env bid key ub us etag ctype]"
    and "list_all (\<lambda>v. ov_version_id v \<noteq> en_version_id env) (object_versions d)"
    and "blobs d4 = blobs d" and "buckets d4 = buckets d"
    and "list_ex (\<lambda>x. ob_bucket_id x = bid \<and> ob_key x = key) (objects d4)"
    and "res = \<lparr>pr_versionID = en_version_id env, pr_etag = etag, pr_blobID = ub, pr_size = us,
                pr_status = 200\<rparr>"
    and "idem \<noteq> [] \<Longrightarrow> GetIdempotencyTx bid key idem d = Inl ErrNotFound \<Longrightarrow>
           GetIdempotencyTx bid key idem d4 = Inr (en_version_id env, etag)"
proof -
  define d1 where "d1 = d\<lparr>object_versions := object_versions d @ [new_version env bid key ub us etag ctype]\<rparr>"
  have fresh: "\<not> list_ex (\<lambda>v. ov_version_id v = en_version_id env) (object_versions d)"
    using assms by (auto simp: putTx_meta_def InsertObjectVersionTx_def Let_def split: if_splits)
  then have ins: "InsertObjectVersionTx (en_now env) bid key (en_version_id env) ub us etag ctype d = Inr d1"
    by (simp add: InsertObjectVersionTx_def d1_def new_version_def)
  obtain d2 where ups: "UpsertObjectTx (en_now env) bid key ub us etag ctype (en_version_id env) d1 = Inr d2"
    using UpsertObjectTx_total by blast
  have d2: "object_versions d2 = object_versions d1" "blobs d2 = blobs d1" "buckets d2 = buckets d1"
           "idempotency_keys d2 = idempotency_keys d1"
           "list_ex (\<lambda>x. ob_bucket_id x = bid \<and> ob_key x = key) (objects d2)"
    using UpsertObjectTx_frame[OF ups] by auto
  obtain d3 where sh: "SetHeadVersionTx bid key (en_version_id env) d2 = Inr d3"
    by (simp add: SetHeadVersionTx_def)
  have d3: "object_versions d3 = object_versions d2" "blobs d3 = blobs d2" "buckets d3 = buckets d2"
           "idempotency_keys d3 = idempotency_keys d2"
           "list_ex (\<lambda>x. ob_bucket_id x = bid \<and> ob_key x = key) (objects d3)"
    using SetHeadVersionTx_frame[OF sh] d2(5) by auto
  define d4' where "d4' = (if idem \<noteq> []
                   then (case SaveIdempotencyTx (en_now env) bid key idem (en_version_id env) etag d3 of
                           Inl e \<Rightarrow> d3 | Inr d' \<Rightarrow> d')
                   else d3)"
  have res: "putTx_meta env bid key idem etag ctype ub us d =
      (Inr d4', \<lparr>pr_versionID = en_version_id env, pr_etag = etag, pr_blobID = ub, pr_size = us, pr_status = 200\<rparr>)"
    using ins ups sh by (simp add: putTx_meta_def Let_def d4'_def)
  then have eq: "d4 = d4'" and r: "res = \<lparr>pr_versionID = en_version_id env, pr_etag = etag, pr_blobID = ub, pr_size = us, pr_status = 200\<rparr>"
    using assms by simp_all
  have d4: "object_versions d4' = object_versions d3" "blobs d4' = blobs d3" "buckets d4' = buckets d3"
           "objects d4' = objects d3"
    by (auto simp: d4'_def SaveIdempotencyTx_def)
  show "object_versions d4 = object_versions d @ [new_version env bid key ub us etag ctype]"
    using eq d4 d3 d2 by (simp add: d1_def)
  show "list_all (\<lambda>v. ov_version_id v \<noteq> en_version_id env) (object_versions d)"
    using fresh by (auto simp: list_all_iff list_ex_iff)
  show "blobs d4 = blobs d" using eq d4 d3 d2 by (simp add: d1_def)
  show "buckets d4 = buckets d" using eq d4 d3 d2 by (simp add: d1_def)
  show "list_ex (\<lambda>x. ob_bucket_id x = bid \<and> ob_key x = key) (objects d4)"
    using eq d4 d3 by simp
  show "res = \<lparr>pr_versionID = en_version_id env, pr_etag = etag, pr_blobID = ub, pr_size = us,
                pr_status = 200\<rparr>" by (rule r)
  show "GetIdempotencyTx bid key idem d4 = Inr (en_version_id env, etag)"
    if "idem \<noteq> []" "GetIdempotencyTx bid key idem d = Inl ErrNotFound"
  proof -
    have k: "idempotency_keys d3 = idempotency_keys d" using d3 d2 by (simp add: d1_def)
    have none: "find (\<lambda>i. ik_bucket_id i = bid \<and> ik_key i = key \<and> ik_idem_key i = idem) (idempotency_keys d3) = None"
      using that(2) k by (simp add: GetIdempotencyTx_def split: option.splits)
    then show ?thesis
      using that(1) eq
      by (simp add: d4'_def SaveIdempotencyTx_def GetIdempotencyTx_def find_None_list_ex find_append_fresh)
  qed
qed


lemma FindBlobByChecksumTx_cong:
  "blobs d' = blobs d \<Longrightarrow> FindBlobByChecksumTx c d' = FindBlobByChecksumTx c d"
  by (simp add: FindBlobByChecksumTx_def)

lemma FindBlobByChecksumTx_err: "FindBlobByChecksumTx c d = Inl e \<Longrightarrow> e = ErrNotFound"
  by (auto simp: FindBlobByChecksumTx_def split: option.splits)

lemma map_id_on: "(\<And>x. x \<in> set xs \<Longrightarrow> f x = x) \<Longrightarrow> map f xs = xs"
  by (induction xs) auto

text \<open>A blob that was reserved and marked ready is the one the checksum finds.\<close>

lemma reserve_then_ready:
  assumes res: "ReserveBlobPendingTx now newB c sz node d = Inr d1"
      and mark: "MarkBlobReadyTx newB d1 = Inr d2"
  shows "\<exists>blob. FindBlobByChecksumTx c d2 = Inr blob \<and> bl_id blob = newB \<and> bl_size blob = sz"
    and "object_versions d2 = object_versions d" and "buckets d2 = buckets d"
    and "idempotency_keys d2 = idempotency_keys d" and "objects d2 = objects d"
    and "\<exists>bs. blobs d2 = blobs d @ bs"
proof -
  have none: "\<not> list_ex (\<lambda>b. bl_id b = newB \<or> bl_checksum b = c) (blobs d)"
    using res by (auto simp: ReserveBlobPendingTx_def split: if_splits)
  define nb where "nb = \<lparr>bl_id = newB, bl_storage_node = node, bl_path = [], bl_size = sz,
                     bl_checksum = c, bl_state = ''pending'', bl_created_at = now\<rparr>"
  have d1: "d1 = d\<lparr>blobs := blobs d @ [nb]\<rparr>"
    using res none by (simp add: ReserveBlobPendingTx_def nb_def)
  have old: "map (\<lambda>b. if bl_id b = newB then b\<lparr>bl_state := ''ready''\<rparr> else b) (blobs d) = blobs d"
    using none by (intro map_id_on) (auto simp: list_ex_iff)
  have d2: "d2 = d\<lparr>blobs := blobs d @ [nb\<lparr>bl_state := ''ready''\<rparr>]\<rparr>"
    using mark old by (simp add: MarkBlobReadyTx_def d1 nb_def)
  have nf: "find (\<lambda>b. bl_checksum b = c \<and> bl_state b = ''ready'') (blobs d) = None"
    using none by (auto simp: find_None_iff list_ex_iff)
  have "FindBlobByChecksumTx c d2 = Inr (nb\<lparr>bl_state := ''ready''\<rparr>)"
    using nf by (simp add: FindBlobByChecksumTx_def d2 find_append_fresh nb_def)
  then show "\<exists>blob. FindBlobByChecksumTx c d2 = Inr blob \<and> bl_id blob = newB \<and> bl_size blob = sz"
    by (simp add: nb_def)
  show "object_versions d2 = object_versions d" "buckets d2 = buckets d"
       "idempotency_keys d2 = idempotency_keys d" "objects d2 = objects d"
    by (simp_all add: d2)
  show "\<exists>bs. blobs d2 = blobs d @ bs" by (simp add: d2)
qed

lemma putTx_dedup_Inr:
  assumes ok: "po_tx (putTx_dedup env bid key idem c etag ctype sz fs d) = Inr d4"
  shows "\<exists>blob. FindBlobByChecksumTx c d4 = Inr blob \<and>
           object_versions d4 = object_versions d @ [new_version env bid key (bl_id blob) (bl_size blob) etag ctype] \<and>
           pr_versionID (po_res (putTx_dedup env bid key idem c etag ctype sz fs d)) = en_version_id env \<and>
           pr_etag (po_res (putTx_dedup env bid key idem c etag ctype sz fs d)) = etag \<and>
           pr_status (po_res (putTx_dedup env bid key idem c etag ctype sz fs d)) = 200 \<and>
           (\<forall>b0. FindBlobByChecksumTx c d = Inr b0 \<longrightarrow>
              blob = b0 \<and> blobs d4 = blobs d \<and>
              \<not> po_staged (putTx_dedup env bid key idem c etag ctype sz fs d) \<and>
              po_files (putTx_dedup env bid key idem c etag ctype sz fs d) = storage_Delete (en_blob_id env) fs) \<and>
           (\<forall>e. FindBlobByChecksumTx c d = Inl e \<longrightarrow>
              po_usedNew (putTx_dedup env bid key idem c etag ctype sz fs d))"
    and "list_all (\<lambda>v. ov_version_id v \<noteq> en_version_id env) (object_versions d)"
    and "buckets d4 = buckets d"
    and "list_ex (\<lambda>x. ob_bucket_id x = bid \<and> ob_key x = key) (objects d4)"
    and "idem \<noteq> [] \<Longrightarrow> GetIdempotencyTx bid key idem d = Inl ErrNotFound \<Longrightarrow>
           GetIdempotencyTx bid key idem d4 = Inr (en_version_id env, etag)"
proof -
  let ?out = "putTx_dedup env bid key idem c etag ctype sz fs d"
  have main: "(\<exists>blob. FindBlobByChecksumTx c d4 = Inr blob \<and>
           object_versions d4 = object_versions d @ [new_version env bid key (bl_id blob) (bl_size blob) etag ctype] \<and>
           pr_versionID (po_res ?out) = en_version_id env \<and> pr_etag (po_res ?out) = etag \<and>
           pr_status (po_res ?out) = 200 \<and>
           (\<forall>b0. FindBlobByChecksumTx c d = Inr b0 \<longrightarrow>
              blob = b0 \<and> blobs d4 = blobs d \<and> \<not> po_staged ?out \<and>
              po_files ?out = storage_Delete (en_blob_id env) fs) \<and>
           (\<forall>e. FindBlobByChecksumTx c d = Inl e \<longrightarrow> po_usedNew ?out)) \<and>
        list_all (\<lambda>v. ov_version_id v \<noteq> en_version_id env) (object_versions d) \<and>
        buckets d4 = buckets d \<and>
        list_ex (\<lambda>x. ob_bucket_id x = bid \<and> ob_key x = key) (objects d4) \<and>
        (idem \<noteq> [] \<longrightarrow> GetIdempotencyTx bid key idem d = Inl ErrNotFound \<longrightarrow>
           GetIdempotencyTx bid key idem d4 = Inr (en_version_id env, etag))"
  proof (cases "FindBlobByChecksumTx c d")
    case (Inr exist)
    obtain tx res where m: "putTx_meta env bid key idem etag ctype (bl_id exist) (bl_size exist) d = (tx, res)"
      by (cases "putTx_meta env bid key idem etag ctype (bl_id exist) (bl_size exist) d") auto
    have out: "?out = \<lparr>po_tx = tx, po_res = res, po_staged = False, po_usedNew = False,
                  po_files = storage_Delete (en_blob_id env) fs\<rparr>"
      using Inr m by (simp add: putTx_dedup_def Let_def)
    then have tx: "tx = Inr d4" using ok by simp
    note f = putTx_meta_Inr[OF m[unfolded tx]]
    have "FindBlobByChecksumTx c d4 = Inr exist"
      using f(3) Inr FindBlobByChecksumTx_cong[of d4 d c] by simp
    then show ?thesis using f out Inr by simp
  next
    case (Inl e)
    then have e: "e = ErrNotFound" by (rule FindBlobByChecksumTx_err)
    show ?thesis
    proof (cases "ReserveBlobPendingTx (en_now env) (en_blob_id env) c sz ''local'' d")
      case (Inl e')
      then show ?thesis using ok \<open>FindBlobByChecksumTx c d = Inl e\<close> e
        by (simp add: putTx_dedup_def Let_def)
    next
      case (Inr d1)
      obtain d2 where mark: "MarkBlobReadyTx (en_blob_id env) d1 = Inr d2"
        by (simp add: MarkBlobReadyTx_def)
      obtain tx res where m: "putTx_meta env bid key idem etag ctype (en_blob_id env) sz d2 = (tx, res)"
        by (cases "putTx_meta env bid key idem etag ctype (en_blob_id env) sz d2") auto
      have out: "?out = \<lparr>po_tx = tx, po_res = res, po_staged = True, po_usedNew = True, po_files = fs\<rparr>"
        using \<open>FindBlobByChecksumTx c d = Inl e\<close> e Inr mark m by (simp add: putTx_dedup_def Let_def)
      then have tx: "tx = Inr d4" using ok by simp
      note f = putTx_meta_Inr[OF m[unfolded tx]]
      note g = reserve_then_ready[OF Inr mark]
      obtain blob where blob: "FindBlobByChecksumTx c d2 = Inr blob" "bl_id blob = en_blob_id env" "bl_size blob = sz"
        using g(1) by blast
      have "FindBlobByChecksumTx c d4 = Inr blob"
        using f(3) blob(1) FindBlobByChecksumTx_cong[of d4 d2 c] by simp
      moreover have "GetIdempotencyTx bid key idem d2 = GetIdempotencyTx bid key idem d"
        using g(4) by (rule GetIdempotencyTx_cong)
      ultimately show ?thesis
        using f g(2,3) blob out \<open>FindBlobByChecksumTx c d = Inl e\<close> by simp
    qed
  qed
  then show "\<exists>blob. FindBlobByChecksumTx c d4 = Inr blob \<and>
           object_versions d4 = object_versions d @ [new_version env bid key (bl_id blob) (bl_size blob) etag ctype] \<and>
           pr_versionID (po_res ?out) = en_version_id env \<and> pr_etag (po_res ?out) = etag \<and>
           pr_status (po_res ?out) = 200 \<and>
           (\<forall>b0. FindBlobByChecksumTx c d = Inr b0 \<longrightarrow>
              blob = b0 \<and> blobs d4 = blobs d \<and> \<not> po_staged ?out \<and>
              po_files ?out = storage_Delete (en_blob_id env) fs) \<and>
           (\<forall>e. FindBlobByChecksumTx c d = Inl e \<longrightarrow> po_usedNew ?out)"
    and "list_all (\<lambda>v. ov_version_id v \<noteq> en_version_id env) (object_versions d)"
    and "buckets d4 = buckets d"
    and "list_ex (\<lambda>x. ob_bucket_id x = bid \<and> ob_key x = key) (objects d4)"
    and "idem \<noteq> [] \<Longrightarrow> GetIdempotencyTx bid key idem d = Inl ErrNotFound \<Longrightarrow>
           GetIdempotencyTx bid key idem d4 = Inr (en_version_id env, etag)"
    by blast+
qed


lemma handlePut_valid:
  assumes parse: "parseBucketKey (rq_path r) = Inr (bucket, key)"
      and ens: "EnsureBucket (en_now env) bucket (rq_owner r) (sv_db s) = (bid, d0)"
      and valid: "put_valid env r"
  shows "handlePut env r s =
           put_commit env r d0
             (putTx env bid key (header_Get (rq_header r) ''X-Idempotency-Key'') (put_checksum env r)
                (put_etag env r) (put_ctype r) (int (length (rq_body r)))
                (storage_Put (en_blob_id env) (rq_body r) (sv_files s)) d0)"
proof -
  have a: "\<not> (rq_content_length r \<ge> 0 \<and> int (length (rq_body r)) \<noteq> rq_content_length r)"
    using valid by (simp add: put_valid_def)
  have b: "\<not> (header_Get (rq_header r) ''x-amz-content-sha256'' \<noteq> [] \<and>
         header_Get (rq_header r) ''x-amz-content-sha256'' \<noteq> en_sha256_hex env (rq_body r) \<and>
         header_Get (rq_header r) ''x-amz-content-sha256'' \<noteq> ''UNSIGNED-PAYLOAD'')"
    using valid by (simp add: put_valid_def)
  show ?thesis
    unfolding handlePut_def parse sum.case prod.case ens Let_def put_commit_def
      put_checksum_def put_etag_def put_ctype_def
    using a b by (simp only: if_False)
qed

lemma handlePut_ok_valid:
  assumes parse: "parseBucketKey (rq_path r) = Inr (bucket, key)"
      and ok: "rs_status (fst (handlePut env r s)) = 200"
  shows "put_valid env r"
proof (rule ccontr)
  assume nv: "\<not> put_valid env r"
  obtain bid d0 where ens: "EnsureBucket (en_now env) bucket (rq_owner r) (sv_db s) = (bid, d0)"
    by (cases "EnsureBucket (en_now env) bucket (rq_owner r) (sv_db s)") auto
  show False
  proof (cases "rq_content_length r \<ge> 0 \<and> int (length (rq_body r)) \<noteq> rq_content_length r")
    case True
    have "rs_status (fst (handlePut env r s)) = 400"
      unfolding handlePut_def parse sum.case prod.case ens Let_def
      using True by (simp add: writeS3Error_def)
    then show False using ok by simp
  next
    case False
    then have b: "header_Get (rq_header r) ''x-amz-content-sha256'' \<noteq> [] \<and>
         header_Get (rq_header r) ''x-amz-content-sha256'' \<noteq> en_sha256_hex env (rq_body r) \<and>
         header_Get (rq_header r) ''x-amz-content-sha256'' \<noteq> ''UNSIGNED-PAYLOAD''"
      using nv by (simp add: put_valid_def)
    have "rs_status (fst (handlePut env r s)) = 400"
      unfolding handlePut_def parse sum.case prod.case ens Let_def
      using False b by (simp add: writeS3Error_def)
    then show False using ok by simp
  qed
qed


lemma storage_Delete_gone: "map_of (storage_Delete ident fs) ident = None"
  by (induction fs) (auto simp: storage_Delete_def)

lemma handlePut_replay:
  assumes parse: "parseBucketKey (rq_path r) = Inr (bucket, key)"
      and ens: "EnsureBucket (en_now env) bucket (rq_owner r) (sv_db s) = (bid, d0)"
      and tok: "header_Get (rq_header r) ''X-Idempotency-Key'' = tok" "tok \<noteq> []"
      and rec: "GetIdempotencyTx bid key tok d0 = Inr (v, e)"
      and ok: "rs_status (fst (handlePut env r s)) = 200"
  shows "\<exists>d1. LockObjectForUpdate (en_now env) bid key d0 = Inr d1 \<and>
           handlePut env r s =
             (put_answer v e,
              \<lparr>sv_db = d1,
               sv_files = storage_Delete (en_blob_id env)
                            (storage_Put (en_blob_id env) (rq_body r) (sv_files s))\<rparr>)"
proof -
  obtain d1 where lock: "LockObjectForUpdate (en_now env) bid key d0 = Inr d1"
    using LockObjectForUpdate_total by blast
  have rec1: "GetIdempotencyTx bid key tok d1 = Inr (v, e)"
    using rec GetIdempotencyTx_cong[OF LockObjectForUpdate_frame(3)[OF lock]] by simp
  have tx: "putTx env bid key tok c et ct sz fs d0 =
              \<lparr>po_tx = Inr d1,
               po_res = \<lparr>pr_versionID = v, pr_etag = e, pr_blobID = [], pr_size = 0, pr_status = 200\<rparr>,
               po_staged = True, po_usedNew = False, po_files = fs\<rparr>" for c et ct sz fs
    using lock rec1 tok(2) by (simp add: putTx_def)
  have "handlePut env r s =
             (put_answer v e,
              \<lparr>sv_db = d1,
               sv_files = storage_Delete (en_blob_id env)
                            (storage_Put (en_blob_id env) (rq_body r) (sv_files s))\<rparr>)"
    by (simp add: handlePut_valid[OF parse ens handlePut_ok_valid[OF parse ok]] tok(1) tx
        put_commit_def put_answer_def)
  then show ?thesis using lock by blast
qed

lemma handlePut_fresh:
  assumes parse: "parseBucketKey (rq_path r) = Inr (bucket, key)"
      and ens: "EnsureBucket (en_now env) bucket (rq_owner r) (sv_db s) = (bid, d0)"
      and tok: "header_Get (rq_header r) ''X-Idempotency-Key'' = tok"
      and miss: "tok = [] \<or> GetIdempotencyTx bid key tok d0 = Inl ErrNotFound"
      and ok: "rs_status (fst (handlePut env r s)) = 200"
  shows "\<exists>blob. FindBlobByChecksumTx (put_checksum env r) (sv_db (snd (handlePut env r s))) = Inr blob \<and>
           object_versions (sv_db (snd (handlePut env r s))) =
             object_versions (sv_db s) @
             [new_version env bid key (bl_id blob) (bl_size blob) (put_etag env r) (put_ctype r)] \<and>
           (\<forall>b0. FindBlobByChecksumTx (put_checksum env r) (sv_db s) = Inr b0 \<longrightarrow>
              blob = b0 \<and> blobs (sv_db (snd (handlePut env r s))) = blobs (sv_db s) \<and>
              map_of (sv_files (snd (handlePut env r s))) (en_blob_id env) = None)"
    and "fst (handlePut env r s) = put_answer (en_version_id env) (put_etag env r)"
    and "list_all (\<lambda>v. ov_version_id v \<noteq> en_version_id env) (object_versions (sv_db s))"
    and "buckets (sv_db (snd (handlePut env r s))) = buckets d0"
    and "list_ex (\<lambda>x. ob_bucket_id x = bid \<and> ob_key x = key) (objects (sv_db (snd (handlePut env r s))))"
    and "tok \<noteq> [] \<Longrightarrow>
           GetIdempotencyTx bid key tok (sv_db (snd (handlePut env r s))) =
             Inr (en_version_id env, put_etag env r)"
proof -
  let ?fs0 = "storage_Put (en_blob_id env) (rq_body r) (sv_files s)"
  let ?sz = "int (length (rq_body r))"
  obtain d1 where lock: "LockObjectForUpdate (en_now env) bid key d0 = Inr d1"
    using LockObjectForUpdate_total by blast
  note lf = LockObjectForUpdate_frame[OF lock]
  note ef = EnsureBucket_frame[OF ens]
  have miss1: "tok = [] \<or> GetIdempotencyTx bid key tok d1 = Inl ErrNotFound"
    using miss GetIdempotencyTx_cong[OF lf(3)] by auto
  define out where "out = putTx_dedup env bid key tok (put_checksum env r) (put_etag env r) (put_ctype r) ?sz ?fs0 d1"
  have tx: "putTx env bid key tok (put_checksum env r) (put_etag env r) (put_ctype r) ?sz ?fs0 d0 = out"
    using lock miss1 by (auto simp: putTx_def out_def)
  have hp: "handlePut env r s = put_commit env r d0 out"
    by (simp add: handlePut_valid[OF parse ens handlePut_ok_valid[OF parse ok]] tok tx)
  obtain d4 where d4: "po_tx out = Inr d4"
    using ok hp by (cases "po_tx out") (auto simp: writeS3Error_def put_commit_def)
  note f = putTx_dedup_Inr[OF d4[unfolded out_def], folded out_def]
  have db: "sv_db (snd (handlePut env r s)) = d4" using hp d4 by (simp add: put_commit_def)
  have vs: "object_versions d1 = object_versions (sv_db s)" using lf ef by simp
  have bl: "blobs d1 = blobs (sv_db s)" using lf ef by simp
  have fb: "FindBlobByChecksumTx c d1 = FindBlobByChecksumTx c (sv_db s)" for c
    using bl by (rule FindBlobByChecksumTx_cong)
  obtain blob where blob:
    "FindBlobByChecksumTx (put_checksum env r) d4 = Inr blob"
    "object_versions d4 = object_versions d1 @ [new_version env bid key (bl_id blob) (bl_size blob) (put_etag env r) (put_ctype r)]"
    "pr_versionID (po_res out) = en_version_id env" "pr_etag (po_res out) = put_etag env r"
    "pr_status (po_res out) = 200"
    "\<forall>b0. FindBlobByChecksumTx (put_checksum env r) d1 = Inr b0 \<longrightarrow>
              blob = b0 \<and> blobs d4 = blobs d1 \<and> \<not> po_staged out \<and>
              po_files out = storage_Delete (en_blob_id env) ?fs0"
    using f(1) by blast
  have files: "sv_files (snd (handlePut env r s)) =
                 (if po_staged out \<and> \<not> po_usedNew out
                  then storage_Delete (en_blob_id env) (po_files out) else po_files out)"
    using hp d4 by (simp add: put_commit_def)
  have dedup: "blob = b0 \<and> blobs (sv_db (snd (handlePut env r s))) = blobs (sv_db s) \<and>
              map_of (sv_files (snd (handlePut env r s))) (en_blob_id env) = None"
    if "FindBlobByChecksumTx (put_checksum env r) (sv_db s) = Inr b0" for b0
  proof -
    have "FindBlobByChecksumTx (put_checksum env r) d1 = Inr b0" using that fb by simp
    then have "blob = b0" "blobs d4 = blobs d1" "\<not> po_staged out"
              "po_files out = storage_Delete (en_blob_id env) ?fs0"
      using blob(6) by auto
    then show ?thesis using db bl files by (simp add: storage_Delete_gone)
  qed
  show "\<exists>blob. FindBlobByChecksumTx (put_checksum env r) (sv_db (snd (handlePut env r s))) = Inr blob \<and>
           object_versions (sv_db (snd (handlePut env r s))) =
             object_versions (sv_db s) @
             [new_version env bid key (bl_id blob) (bl_size blob) (put_etag env r) (put_ctype r)] \<and>
           (\<forall>b0. FindBlobByChecksumTx (put_checksum env r) (sv_db s) = Inr b0 \<longrightarrow>
              blob = b0 \<and> blobs (sv_db (snd (handlePut env r s))) = blobs (sv_db s) \<and>
              map_of (sv_files (snd (handlePut env r s))) (en_blob_id env) = None)"
    using blob(1,2) db vs dedup by (intro exI[of _ blob]) simp
  show "fst (handlePut env r s) = put_answer (en_version_id env) (put_etag env r)"
    using hp d4 blob(3,4,5) by (simp add: put_answer_def put_commit_def)
  show "list_all (\<lambda>v. ov_version_id v \<noteq> en_version_id env) (object_versions (sv_db s))"
    using f(2) vs by simp
  show "buckets (sv_db (snd (handlePut env r s))) = buckets d0"
    using f(3) db lf by simp
  show "list_ex (\<lambda>x. ob_bucket_id x = bid \<and> ob_key x = key) (objects (sv_db (snd (handlePut env r s))))"
    using f(4) db by simp
  show "GetIdempotencyTx bid key tok (sv_db (snd (handlePut env r s))) =
             Inr (en_version_id env, put_etag env r)" if "tok \<noteq> []"
    using f(5)[OF that] miss1 that db by simp
qed


lemma put_answer_reads:
  "rs_status (put_answer v e) = 200"
  "header_Get (rs_header (put_answer v e)) ''x-amz-version-id'' = v"
  "header_Get (rs_header (put_answer v e)) ''ETag'' = e"
proof -
  have ne: "ToLower ''Content-Type'' \<noteq> ToLower ''x-amz-version-id''"
           "ToLower ''Content-Type'' \<noteq> ToLower ''ETag''"
           "ToLower ''x-amz-version-id'' \<noteq> ToLower ''ETag''"
    by code_simp+
  show "rs_status (put_answer v e) = 200" by (simp add: put_answer_def)
  show "header_Get (rs_header (put_answer v e)) ''x-amz-version-id'' = v"
    by (simp add: put_answer_def header_Get_Set_other[OF ne(1)] header_Get_Set_same)
  show "header_Get (rs_header (put_answer v e)) ''ETag'' = e"
    by (simp add: put_answer_def header_Get_Set_other[OF ne(2)] header_Get_Set_other[OF ne(3)]
        header_Get_Set_same)
qed

text \<open>A replay in a state that holds the record and the object row.\<close>

lemma handlePut_replay_step:
  assumes parse: "parseBucketKey (rq_path r) = Inr (bucket, key)"
      and tok: "header_Get (rq_header r) ''X-Idempotency-Key'' = tok" "tok \<noteq> []"
      and bk: "find (\<lambda>b. bk_name b = bucket) (buckets (sv_db s)) = Some b"
      and rec: "GetIdempotencyTx (bk_id b) key tok (sv_db s) = Inr (v, e)"
      and row: "list_ex (\<lambda>x. ob_bucket_id x = bk_id b \<and> ob_key x = key) (objects (sv_db s))"
      and ok: "rs_status (fst (handlePut env r s)) = 200"
  shows "fst (handlePut env r s) = put_answer v e"
    and "object_versions (sv_db (snd (handlePut env r s))) = object_versions (sv_db s)"
    and "objects (sv_db (snd (handlePut env r s))) = objects (sv_db s)"
    and "blobs (sv_db (snd (handlePut env r s))) = blobs (sv_db s)"
    and "idempotency_keys (sv_db (snd (handlePut env r s))) = idempotency_keys (sv_db s)"
    and "\<exists>b'. find (\<lambda>b. bk_name b = bucket) (buckets (sv_db (snd (handlePut env r s)))) = Some b' \<and>
              bk_id b' = bk_id b"
    and "map_of (sv_files (snd (handlePut env r s))) (en_blob_id env) = None"
    and "bk_owner_id b \<noteq> 0 \<Longrightarrow> sv_db (snd (handlePut env r s)) = sv_db s"
proof -
  obtain d0 b' where ens: "EnsureBucket (en_now env) bucket (rq_owner r) (sv_db s) = (bk_id b, d0)"
      and b': "find (\<lambda>b. bk_name b = bucket) (buckets d0) = Some b'" "bk_id b' = bk_id b"
    using EnsureBucket_again[OF bk, of "en_now env" "rq_owner r"] by blast
  note ef = EnsureBucket_frame[OF ens]
  have rec0: "GetIdempotencyTx (bk_id b) key tok d0 = Inr (v, e)"
    using rec GetIdempotencyTx_cong[OF ef(4)] by simp
  have lock: "LockObjectForUpdate (en_now env) (bk_id b) key d0 = Inr d0"
    using row ef(1) by (intro LockObjectForUpdate_present) simp
  have hp: "handlePut env r s =
             (put_answer v e,
              \<lparr>sv_db = d0,
               sv_files = storage_Delete (en_blob_id env)
                            (storage_Put (en_blob_id env) (rq_body r) (sv_files s))\<rparr>)"
    using handlePut_replay[OF parse ens tok rec0 ok] lock by auto
  show "fst (handlePut env r s) = put_answer v e" using hp by simp
  show "object_versions (sv_db (snd (handlePut env r s))) = object_versions (sv_db s)"
    using hp ef by simp
  show "objects (sv_db (snd (handlePut env r s))) = objects (sv_db s)" using hp ef by simp
  show "blobs (sv_db (snd (handlePut env r s))) = blobs (sv_db s)" using hp ef by simp
  show "idempotency_keys (sv_db (snd (handlePut env r s))) = idempotency_keys (sv_db s)"
    using hp ef by simp
  show "\<exists>b'. find (\<lambda>b. bk_name b = bucket) (buckets (sv_db (snd (handlePut env r s)))) = Some b' \<and>
              bk_id b' = bk_id b"
    using hp b' by simp
  show "map_of (sv_files (snd (handlePut env r s))) (en_blob_id env) = None"
    using hp by (simp add: storage_Delete_gone)
  show "sv_db (snd (handlePut env r s)) = sv_db s" if owned: "bk_owner_id b \<noteq> 0"
  proof -
    have "d0 = sv_db s" using ens EnsureBucket_noop[OF bk owned] by simp
    then show ?thesis using hp by simp
  qed
qed

lemma run_puts_replays:
  assumes tok: "tok \<noteq> []"
      and triple: "list_all (\<lambda>p. parseBucketKey (rq_path (snd p)) = Inr (bucket, key) \<and>
                        header_Get (rq_header (snd p)) ''X-Idempotency-Key'' = tok) rest"
      and ok: "list_all (\<lambda>q. rs_status (fst q) = 200) (run_puts rest s)"
      and bk: "find (\<lambda>b. bk_name b = bucket) (buckets (sv_db s)) = Some b"
      and rec: "GetIdempotencyTx (bk_id b) key tok (sv_db s) = Inr (v, e)"
      and row: "list_ex (\<lambda>x. ob_bucket_id x = bk_id b \<and> ob_key x = key) (objects (sv_db s))"
  shows "list_all2 (\<lambda>p q. fst q = put_answer v e \<and>
                      object_versions (sv_db (snd q)) = object_versions (sv_db s) \<and>
                      objects (sv_db (snd q)) = objects (sv_db s) \<and>
                      blobs (sv_db (snd q)) = blobs (sv_db s) \<and>
                      idempotency_keys (sv_db (snd q)) = idempotency_keys (sv_db s) \<and>
                      map_of (sv_files (snd q)) (en_blob_id (fst p)) = None \<and>
                      (bk_owner_id b \<noteq> 0 \<longrightarrow> sv_db (snd q) = sv_db s))
           rest (run_puts rest s)"
  using triple ok bk rec row
proof (induction rest arbitrary: s b)
  case Nil
  then show ?case by simp
next
  case (Cons p rest)
  obtain env r where p: "p = (env, r)" by (cases p) auto
  obtain resp s1 where hp: "handlePut env r s = (resp, s1)" by (cases "handlePut env r s") auto
  have run: "run_puts (p # rest) s = (resp, s1) # run_puts rest s1"
    using p hp by simp
  have parse: "parseBucketKey (rq_path r) = Inr (bucket, key)"
    and hdr: "header_Get (rq_header r) ''X-Idempotency-Key'' = tok"
    and triple': "list_all (\<lambda>p. parseBucketKey (rq_path (snd p)) = Inr (bucket, key) \<and>
                        header_Get (rq_header (snd p)) ''X-Idempotency-Key'' = tok) rest"
    using Cons.prems(1) p by simp_all
  have ok1: "rs_status (fst (handlePut env r s)) = 200"
    and ok': "list_all (\<lambda>q. rs_status (fst q) = 200) (run_puts rest s1)"
    using Cons.prems(2) run hp by simp_all
  note st = handlePut_replay_step[OF parse hdr tok Cons.prems(3,4,5) ok1, unfolded hp fst_conv snd_conv]
  obtain b' where b': "find (\<lambda>b. bk_name b = bucket) (buckets (sv_db s1)) = Some b'" "bk_id b' = bk_id b"
    using st(6) by blast
  have rec1: "GetIdempotencyTx (bk_id b') key tok (sv_db s1) = Inr (v, e)"
    using Cons.prems(4) GetIdempotencyTx_cong[OF st(5)] b'(2) by simp
  have row1: "list_ex (\<lambda>x. ob_bucket_id x = bk_id b' \<and> ob_key x = key) (objects (sv_db s1))"
    using Cons.prems(5) st(3) b'(2) by simp
  have same: "b' = b \<and> sv_db s1 = sv_db s" if "bk_owner_id b \<noteq> 0"
    using st(8)[OF that] b'(1) Cons.prems(3) by simp
  have "list_all2 (\<lambda>p q. fst q = put_answer v e \<and>
                      object_versions (sv_db (snd q)) = object_versions (sv_db s1) \<and>
                      objects (sv_db (snd q)) = objects (sv_db s1) \<and>
                      blobs (sv_db (snd q)) = blobs (sv_db s1) \<and>
                      idempotency_keys (sv_db (snd q)) = idempotency_keys (sv_db s1) \<and>
                      map_of (sv_files (snd q)) (en_blob_id (fst p)) = None \<and>
                      (bk_owner_id b' \<noteq> 0 \<longrightarrow> sv_db (snd q) = sv_db s1))
           rest (run_puts rest s1)"
    by (rule Cons.IH[OF triple' ok' b'(1) rec1 row1])
  then have "list_all2 (\<lambda>p q. fst q = put_answer v e \<and>
                      object_versions (sv_db (snd q)) = object_versions (sv_db s) \<and>
                      objects (sv_db (snd q)) = objects (sv_db s) \<and>
                      blobs (sv_db (snd q)) = blobs (sv_db s) \<and>
                      idempotency_keys (sv_db (snd q)) = idempotency_keys (sv_db s) \<and>
                      map_of (sv_files (snd q)) (en_blob_id (fst p)) = None \<and>
                      (bk_owner_id b \<noteq> 0 \<longrightarrow> sv_db (snd q) = sv_db s))
           rest (run_puts rest s1)"
    using st(2,3,4,5) same by (auto elim!: list_all2_mono)
  then show ?case
    unfolding run using st(1,2,3,4,5,7,8) p by simp
qed


lemma GetIdempotencyTx_err: "GetIdempotencyTx bid key tok d = Inl e \<Longrightarrow> e = ErrNotFound"
  by (auto simp: GetIdempotencyTx_def split: option.splits)

lemma not_replayed_miss:
  assumes parse: "parseBucketKey (rq_path r) = Inr (bucket, key)"
      and ens: "EnsureBucket (en_now env) bucket (rq_owner r) (sv_db s) = (bid, d0)"
      and first: "\<not> put_replayed env r s"
  shows "header_Get (rq_header r) ''X-Idempotency-Key'' = [] \<or>
         GetIdempotencyTx bid key (header_Get (rq_header r) ''X-Idempotency-Key'') d0 = Inl ErrNotFound"
proof (cases "GetIdempotencyTx bid key (header_Get (rq_header r) ''X-Idempotency-Key'') d0")
  case (Inl e)
  then show ?thesis using GetIdempotencyTx_err[OF Inl] by simp
next
  case (Inr x)
  then show ?thesis using first parse ens by (simp add: put_replayed_def)
qed

text \<open>
  Claim C5 (idempotency): let every request of a run of \<open>PUT\<close>s name the same bucket and
  key and carry the same non-empty \<open>X-Idempotency-Key\<close>, let every response be 200, and let
  the first request find no record of the triple. Then the first \<open>PUT\<close> appends exactly one
  version, with the version id and the ETag that it returns; and every later \<open>PUT\<close>
  answers 200 with that version id and that ETag, leaves the versions, the object heads,
  the blob records and the idempotency records as the first \<open>PUT\<close> left them (the whole
  database, when the first request came from an authenticated caller, so that the bucket
  has an owner), and leaves no file under its freshly staged blob id.
\<close>

theorem idempotent_put_run:
  assumes tok: "tok \<noteq> []"
      and triple: "list_all (\<lambda>p. parseBucketKey (rq_path (snd p)) = Inr (bucket, key) \<and>
                             header_Get (rq_header (snd p)) ''X-Idempotency-Key'' = tok)
                     ((env0, r0) # rest)"
      and ok: "list_all (\<lambda>q. rs_status (fst q) = 200) (run_puts ((env0, r0) # rest) s)"
      and first: "\<not> put_replayed env0 r0 s"
  shows "case handlePut env0 r0 s of (resp0, s1) \<Rightarrow>
           (\<exists>ver. object_versions (sv_db s1) = object_versions (sv_db s) @ [ver] \<and>
                  ov_version_id ver = en_version_id env0 \<and> ov_key ver = key \<and>
                  ov_etag ver = Some (put_etag env0 r0) \<and> \<not> ov_is_delete ver) \<and>
           header_Get (rs_header resp0) ''x-amz-version-id'' = en_version_id env0 \<and>
           header_Get (rs_header resp0) ''ETag'' = put_etag env0 r0 \<and>
           list_all2 (\<lambda>p q. rs_status (fst q) = 200 \<and>
                        header_Get (rs_header (fst q)) ''x-amz-version-id'' = en_version_id env0 \<and>
                        header_Get (rs_header (fst q)) ''ETag'' = put_etag env0 r0 \<and>
                        object_versions (sv_db (snd q)) = object_versions (sv_db s1) \<and>
                        objects (sv_db (snd q)) = objects (sv_db s1) \<and>
                        blobs (sv_db (snd q)) = blobs (sv_db s1) \<and>
                        idempotency_keys (sv_db (snd q)) = idempotency_keys (sv_db s1) \<and>
                        map_of (sv_files (snd q)) (en_blob_id (fst p)) = None \<and>
                        (rq_owner r0 \<noteq> 0 \<longrightarrow> sv_db (snd q) = sv_db s1))
             rest (run_puts rest s1)"
proof -
  obtain resp0 s1 where hp: "handlePut env0 r0 s = (resp0, s1)"
    by (cases "handlePut env0 r0 s") auto
  have parse: "parseBucketKey (rq_path r0) = Inr (bucket, key)"
    and hdr: "header_Get (rq_header r0) ''X-Idempotency-Key'' = tok"
    and triple': "list_all (\<lambda>p. parseBucketKey (rq_path (snd p)) = Inr (bucket, key) \<and>
                        header_Get (rq_header (snd p)) ''X-Idempotency-Key'' = tok) rest"
    using triple by simp_all
  have ok0: "rs_status (fst (handlePut env0 r0 s)) = 200"
    and ok': "list_all (\<lambda>q. rs_status (fst q) = 200) (run_puts rest s1)"
    using ok hp by simp_all
  obtain bid d0 where ens: "EnsureBucket (en_now env0) bucket (rq_owner r0) (sv_db s) = (bid, d0)"
    by (cases "EnsureBucket (en_now env0) bucket (rq_owner r0) (sv_db s)") auto
  have miss: "tok = [] \<or> GetIdempotencyTx bid key tok d0 = Inl ErrNotFound"
    using not_replayed_miss[OF parse ens first] hdr by simp
  note f = handlePut_fresh[OF parse ens hdr miss ok0, unfolded hp fst_conv snd_conv]
  obtain blob :: Blob where vs: "object_versions (sv_db s1) =
      object_versions (sv_db s) @
      [new_version env0 bid key (bl_id blob) (bl_size blob) (put_etag env0 r0) (put_ctype r0)]"
    using f(1) by blast
  obtain b where bk: "find (\<lambda>b. bk_name b = bucket) (buckets (sv_db s1)) = Some b" "bk_id b = bid"
    using EnsureBucket_found[OF ens] f(4) by auto
  have owned: "bk_owner_id b \<noteq> 0" if "rq_owner r0 \<noteq> 0"
    using EnsureBucket_owned[OF ens that] bk(1) f(4) by auto
  have rec: "GetIdempotencyTx (bk_id b) key tok (sv_db s1) = Inr (en_version_id env0, put_etag env0 r0)"
    using f(6)[OF tok] bk(2) by simp
  have row: "list_ex (\<lambda>x. ob_bucket_id x = bk_id b \<and> ob_key x = key) (objects (sv_db s1))"
    using f(5) bk(2) by simp
  have rp: "list_all2 (\<lambda>p q. fst q = put_answer (en_version_id env0) (put_etag env0 r0) \<and>
                      object_versions (sv_db (snd q)) = object_versions (sv_db s1) \<and>
                      objects (sv_db (snd q)) = objects (sv_db s1) \<and>
                      blobs (sv_db (snd q)) = blobs (sv_db s1) \<and>
                      idempotency_keys (sv_db (snd q)) = idempotency_keys (sv_db s1) \<and>
                      map_of (sv_files (snd q)) (en_blob_id (fst p)) = None \<and>
                      (bk_owner_id b \<noteq> 0 \<longrightarrow> sv_db (snd q) = sv_db s1))
           rest (run_puts rest s1)"
    by (rule run_puts_replays[OF tok triple' ok' bk(1) rec row])
  have rp': "list_all2 (\<lambda>p q. rs_status (fst q) = 200 \<and>
                        header_Get (rs_header (fst q)) ''x-amz-version-id'' = en_version_id env0 \<and>
                        header_Get (rs_header (fst q)) ''ETag'' = put_etag env0 r0 \<and>
                        object_versions (sv_db (snd q)) = object_versions (sv_db s1) \<and>
                        objects (sv_db (snd q)) = objects (sv_db s1) \<and>
                        blobs (sv_db (snd q)) = blobs (sv_db s1) \<and>
                        idempotency_keys (sv_db (snd q)) = idempotency_keys (sv_db s1) \<and>
                        map_of (sv_files (snd q)) (en_blob_id (fst p)) = None \<and>
                        (rq_owner r0 \<noteq> 0 \<longrightarrow> sv_db (snd q) = sv_db s1))
             rest (run_puts rest s1)"
    by (rule list_all2_mono[OF rp]) (insert owned, simp add: put_answer_reads)
  have ver: "\<exists>ver. object_versions (sv_db s1) = object_versions (sv_db s) @ [ver] \<and>
                  ov_version_id ver = en_version_id env0 \<and> ov_key ver = key \<and>
                  ov_etag ver = Some (put_etag env0 r0) \<and> \<not> ov_is_delete ver"
    using vs by (simp add: new_version_def)
  show ?thesis
    unfolding hp prod.case using ver rp' f(2) by (simp add: put_answer_reads)
qed

text \<open>
  The upload of \<open>A\<close> with the token \<open>t1\<close> into the empty server, replayed a day later with
  the body \<open>B\<close>: the replay answers with \<open>v1\<close> and the ETag of \<open>A\<close>.
\<close>

lemma put_t1_run:
  "list_all (\<lambda>p. parseBucketKey (rq_path (snd p)) = Inr (''photos'', ''cat.jpg'') \<and>
                  header_Get (rq_header (snd p)) ''X-Idempotency-Key'' = ''t1'')
     [(env_first, put_A_t1), (env_second, put_B_t1)]"
  "list_all (\<lambda>q. rs_status (fst q) = 200)
     (run_puts [(env_first, put_A_t1), (env_second, put_B_t1)] srv_empty)"
  "\<not> put_replayed env_first put_A_t1 srv_empty"
  by code_simp+

theorem idempotent_put_run_witness:
  "case handlePut env_first put_A_t1 srv_empty of (resp0, s1) \<Rightarrow>
           (\<exists>ver. object_versions (sv_db s1) = object_versions (sv_db srv_empty) @ [ver] \<and>
                  ov_version_id ver = en_version_id env_first \<and> ov_key ver = ''cat.jpg'' \<and>
                  ov_etag ver = Some (put_etag env_first put_A_t1) \<and> \<not> ov_is_delete ver) \<and>
           header_Get (rs_header resp0) ''x-amz-version-id'' = en_version_id env_first \<and>
           header_Get (rs_header resp0) ''ETag'' = put_etag env_first put_A_t1 \<and>
           list_all2 (\<lambda>p q. rs_status (fst q) = 200 \<and>
                        header_Get (rs_header (fst q)) ''x-amz-version-id'' = en_version_id env_first \<and>
                        header_Get (rs_header (fst q)) ''ETag'' = put_etag env_first put_A_t1 \<and>
                        object_versions (sv_db (snd q)) = object_versions (sv_db s1) \<and>
                        objects (sv_db (snd q)) = objects (sv_db s1) \<and>
                        blobs (sv_db (snd q)) = blobs (sv_db s1) \<and>
                        idempotency_keys (sv_db (snd q)) = idempotency_keys (sv_db s1) \<and>
                        map_of (sv_files (snd q)) (en_blob_id (fst p)) = None \<and>
                        (rq_owner put_A_t1 \<noteq> 0 \<longrightarrow> sv_db (snd q) = sv_db s1))
             [(env_second, put_B_t1)] (run_puts [(env_second, put_B_t1)] s1)"
proof -
  have ne: "''t1'' \<noteq> []" by simp
  show ?thesis by (rule idempotent_put_run[OF ne put_t1_run])
qed


subsection \<open>Runs of uploads only add blob records and versions\<close>















end
